theory Spec2Isabelle
  imports Complex_Main "HOL-Library.Multiset"
begin

section \<open>Data model of \<open>batch_optimizer.py\<close>\<close>

text \<open>
  The development embeds the priority-adaptive batch scheduler
  (\<open>aphrodite/endpoints/deep_tree_echo/batch_optimizer.py\<close>).
  Python \<open>int\<close> is \<open>int\<close>. Python \<open>float\<close> is modelled by \<open>real\<close>: arithmetic is exact,
  rounding, overflow and NaN are outside the model. Exceptions are values of
  \<open>py_exception\<close>; a function that can raise after mutating \<open>self\<close> returns the exception
  together with the state reached at the raise.
\<close>

datatype RequestPriority = CRITICAL | HIGH | NORMAL | LOW | BACKGROUND

fun priority_value :: "RequestPriority \<Rightarrow> int" where
  "priority_value CRITICAL = 0"
| "priority_value HIGH = 1"
| "priority_value NORMAL = 2"
| "priority_value LOW = 3"
| "priority_value BACKGROUND = 4"

datatype py_exception =
    ZeroDivisionError
  | InvalidStateError
  | IndexError
  | OverflowError
  | OtherError string

text \<open>
  \<open>PrioritizedRequest\<close>: the field \<open>future\<close> holds the address of the request's
  \<open>asyncio.Future\<close> in the store of futures, \<open>request_data\<close> is the opaque payload.
\<close>

record 'd PrioritizedRequest =
  priority :: int
  timestamp :: real
  request_id :: string
  request_data :: 'd
  future :: nat

record BatchOptimizerMetrics =
  total_requests :: int
  batches_processed :: int
  avg_batch_size :: real
  peak_batch_size :: int
  critical_requests :: int
  high_priority_requests :: int
  normal_requests :: int
  low_priority_requests :: int
  avg_wait_time_ms :: real
  avg_processing_time_ms :: real
  throughput_req_per_sec :: real
  avg_gpu_utilization :: real
  gpu_samples :: "real list"
  batch_efficiency :: real
  coalescing_rate :: real
  last_updated :: real

record BatchOptimizerConfig =
  min_batch_size :: int
  max_batch_size :: int
  target_batch_size :: int
  enable_priority_batching :: bool
  critical_batch_size :: int
  high_priority_batch_size :: int
  enable_gpu_aware_sizing :: bool
  target_gpu_utilization :: real
  gpu_utilization_window :: int
  adaptive_timeout :: bool
  min_timeout_ms :: real
  max_timeout_ms :: real
  critical_timeout_ms :: real
  enable_coalescing :: bool
  coalescing_similarity_threshold :: real
  enable_prefetch :: bool
  prefetch_size :: int
  enable_batch_splitting :: bool
  max_batch_split_size :: int

text \<open>The defaults of the two dataclasses; \<open>now\<close> is the reading of \<open>time.time\<close>.\<close>

definition default_config :: BatchOptimizerConfig where
  "default_config =
     \<lparr> min_batch_size = 1, max_batch_size = 64, target_batch_size = 16,
       enable_priority_batching = True, critical_batch_size = 1,
       high_priority_batch_size = 4,
       enable_gpu_aware_sizing = True, target_gpu_utilization = 85 / 100,
       gpu_utilization_window = 10,
       adaptive_timeout = True, min_timeout_ms = 10, max_timeout_ms = 100,
       critical_timeout_ms = 5,
       enable_coalescing = True, coalescing_similarity_threshold = 95 / 100,
       enable_prefetch = True, prefetch_size = 4,
       enable_batch_splitting = True, max_batch_split_size = 32 \<rparr>"

definition initial_metrics :: "real \<Rightarrow> BatchOptimizerMetrics" where
  "initial_metrics now =
     \<lparr> total_requests = 0, batches_processed = 0, avg_batch_size = 0,
       peak_batch_size = 0,
       critical_requests = 0, high_priority_requests = 0, normal_requests = 0,
       low_priority_requests = 0,
       avg_wait_time_ms = 0, avg_processing_time_ms = 0, throughput_req_per_sec = 0,
       avg_gpu_utilization = 0, gpu_samples = [],
       batch_efficiency = 0, coalescing_rate = 0, last_updated = now \<rparr>"

section \<open>Batch sizing: \<open>_calculate_optimal_batch_size\<close>\<close>

text \<open>
  The body of the \<open>try\<close> block: the sample is appended, the oldest sample is popped once
  when the window is exceeded, and the mean of the window decides the adjustment.
  With a window of size zero or less the list is empty again after the pop and the
  mean raises \<open>ZeroDivisionError\<close>; the samples stay as mutated.
\<close>

definition gpu_adjust ::
  "BatchOptimizerConfig \<Rightarrow> real \<Rightarrow> BatchOptimizerMetrics \<Rightarrow>
     (py_exception + int) \<times> BatchOptimizerMetrics" where
  "gpu_adjust cfg gpu_util m =
     (let s1 = gpu_samples m @ [gpu_util];
          s2 = (if int (length s1) > gpu_utilization_window cfg then tl s1 else s1);
          m1 = m\<lparr>gpu_samples := s2\<rparr>
      in if s2 = [] then (Inl ZeroDivisionError, m1)
         else
           let avg_gpu_util = sum_list s2 / real (length s2);
               m2 = m1\<lparr>avg_gpu_utilization := avg_gpu_util\<rparr>;
               batch_size = target_batch_size cfg
           in if avg_gpu_util < target_gpu_utilization cfg - 1 / 10
              then (Inr (min (batch_size + 4) (max_batch_size cfg)), m2)
              else if avg_gpu_util > target_gpu_utilization cfg + 1 / 10
              then (Inr (max (batch_size - 4) (min_batch_size cfg)), m2)
              else (Inr batch_size, m2))"

text \<open>
  The monitor of one sizing round: \<open>None\<close> when no \<open>gpu_monitor\<close> is configured,
  \<open>Some (Inl e)\<close> when the callback raises \<open>e\<close>, \<open>Some (Inr u)\<close> when it returns \<open>u\<close>.
  Every exception of the \<open>try\<close> block is caught and logged, and the size stays at
  \<open>target_batch_size\<close>.
\<close>

definition gpu_stage ::
  "BatchOptimizerConfig \<Rightarrow> (py_exception + real) option \<Rightarrow> BatchOptimizerMetrics \<Rightarrow>
     int \<times> BatchOptimizerMetrics" where
  "gpu_stage cfg gpu_monitor m =
     (if enable_gpu_aware_sizing cfg then
        (case gpu_monitor of
           None \<Rightarrow> (target_batch_size cfg, m)
         | Some (Inl e) \<Rightarrow> (target_batch_size cfg, m)
         | Some (Inr gpu_util) \<Rightarrow>
             (case gpu_adjust cfg gpu_util m of
                (Inl e, m') \<Rightarrow> (target_batch_size cfg, m')
              | (Inr b, m') \<Rightarrow> (b, m')))
      else (target_batch_size cfg, m))"

text \<open>The peek at \<open>self._request_heap[0]\<close> under the lock.\<close>

definition priority_stage ::
  "BatchOptimizerConfig \<Rightarrow> 'd PrioritizedRequest list \<Rightarrow> int \<Rightarrow> int" where
  "priority_stage cfg request_heap batch_size =
     (case request_heap of
        [] \<Rightarrow> batch_size
      | top_req # _ \<Rightarrow>
          if priority top_req = priority_value CRITICAL then critical_batch_size cfg
          else if priority top_req = priority_value HIGH
          then min batch_size (high_priority_batch_size cfg)
          else batch_size)"

definition calculate_optimal_batch_size ::
  "BatchOptimizerConfig \<Rightarrow> (py_exception + real) option \<Rightarrow>
     'd PrioritizedRequest list \<Rightarrow> BatchOptimizerMetrics \<Rightarrow>
     int \<times> BatchOptimizerMetrics" where
  "calculate_optimal_batch_size cfg gpu_monitor request_heap m =
     (case gpu_stage cfg gpu_monitor m of
        (batch_size, m') \<Rightarrow> (priority_stage cfg request_heap batch_size, m'))"

section \<open>Adaptive timeout: \<open>_calculate_timeout\<close>\<close>

text \<open>
  \<open>queue_size\<close> is \<open>len(self._request_heap)\<close>; \<open>//\<close> is floor division, which is \<open>div\<close> on
  \<open>int\<close>; \<open>/\<close> is true division and raises on a zero divisor.
\<close>

definition calculate_timeout ::
  "BatchOptimizerConfig \<Rightarrow> nat \<Rightarrow> int \<Rightarrow> py_exception + real" where
  "calculate_timeout cfg queue_size batch_size =
     (if \<not> adaptive_timeout cfg then Inr (max_timeout_ms cfg)
      else if int queue_size \<ge> batch_size * 2 then Inr (min_timeout_ms cfg)
      else if int queue_size < batch_size div 2 then Inr (max_timeout_ms cfg)
      else if batch_size = 0 then Inl ZeroDivisionError
      else
        let ratio = real queue_size / real_of_int batch_size
        in Inr (min_timeout_ms cfg +
                (max_timeout_ms cfg - min_timeout_ms cfg) * (1 - ratio)))"

section \<open>Metrics: \<open>_update_metrics\<close> and \<open>_update_wait_time\<close>\<close>

definition update_wait_time :: "real \<Rightarrow> BatchOptimizerMetrics \<Rightarrow> BatchOptimizerMetrics" where
  "update_wait_time wait_time_ms m =
     (let total = total_requests m
      in if total > 0
         then m\<lparr>avg_wait_time_ms :=
                  (avg_wait_time_ms m * real_of_int (total - 1) + wait_time_ms)
                  / real_of_int total\<rparr>
         else m)"

text \<open>
  \<open>_update_metrics\<close> assigns field after field, so an exception leaves the fields
  assigned before it. The three steps below are the assignments up to the throughput;
  \<open>update_metrics\<close> chains them with the two divisions that can raise.
\<close>

definition update_sizes :: "int \<Rightarrow> BatchOptimizerMetrics \<Rightarrow> BatchOptimizerMetrics" where
  "update_sizes batch_size m =
     (let m1 = m\<lparr>avg_batch_size :=
                   (avg_batch_size m * real_of_int (batches_processed m - 1)
                    + real_of_int batch_size)
                   / real_of_int (batches_processed m)\<rparr>
      in if batch_size > peak_batch_size m1 then m1\<lparr>peak_batch_size := batch_size\<rparr>
         else m1)"

definition update_processing_time ::
  "int \<Rightarrow> real \<Rightarrow> BatchOptimizerMetrics \<Rightarrow> BatchOptimizerMetrics" where
  "update_processing_time batch_size processing_time_ms m =
     (let m1 = m\<lparr>avg_processing_time_ms :=
                   (avg_processing_time_ms m * real_of_int (batches_processed m - 1)
                    + processing_time_ms)
                   / real_of_int (batches_processed m)\<rparr>
      in if processing_time_ms > 0
         then m1\<lparr>throughput_req_per_sec :=
                   real_of_int batch_size / processing_time_ms * 1000\<rparr>
         else m1)"

definition update_efficiency ::
  "BatchOptimizerConfig \<Rightarrow> real \<Rightarrow> BatchOptimizerMetrics \<Rightarrow>
     py_exception option \<times> BatchOptimizerMetrics" where
  "update_efficiency cfg now m =
     (if avg_processing_time_ms m = 0 then (Some ZeroDivisionError, m)
      else
        let theoretical_throughput =
              real_of_int (max_batch_size cfg) / avg_processing_time_ms m;
            m1 = (if theoretical_throughput > 0
                  then m\<lparr>batch_efficiency :=
                           throughput_req_per_sec m / theoretical_throughput\<rparr>
                  else m)
        in (None, m1\<lparr>last_updated := now\<rparr>))"

definition update_metrics ::
  "BatchOptimizerConfig \<Rightarrow> real \<Rightarrow> int \<Rightarrow> real \<Rightarrow> BatchOptimizerMetrics \<Rightarrow>
     py_exception option \<times> BatchOptimizerMetrics" where
  "update_metrics cfg now batch_size processing_time_ms m =
     (let m1 = m\<lparr>batches_processed := batches_processed m + 1\<rparr>
      in if batches_processed m1 = 0 then (Some ZeroDivisionError, m1)
         else update_efficiency cfg now
                (update_processing_time batch_size processing_time_ms
                   (update_sizes batch_size m1)))"

text \<open>
  The metrics after a history of \<open>_update_metrics\<close> calls, each given as
  (batch size, processing time, clock reading); a call that raised has still left its
  assignments behind, and the consumer loop goes on after logging it.
\<close>

fun metrics_after ::
  "BatchOptimizerConfig \<Rightarrow> (int \<times> real \<times> real) list \<Rightarrow> BatchOptimizerMetrics \<Rightarrow>
     BatchOptimizerMetrics" where
  "metrics_after cfg [] m = m"
| "metrics_after cfg ((batch_size, processing_time_ms, now) # calls) m =
     metrics_after cfg calls (snd (update_metrics cfg now batch_size processing_time_ms m))"


section \<open>\<open>_update_metrics\<close> in IEEE double arithmetic\<close>

text \<open>
  The definitions above read Python's floats as reals. Whether the running-mean
  processing time can be zero after a positive measurement depends on rounding and
  underflow, so \<open>_update_metrics\<close> is embedded a second time, over binary64 values with
  every operation rounded; names of this embedding end in \<open>_d\<close>.
\<close>

text \<open>
  A Python \<open>float\<close> is an IEEE 754 binary64 value: a finite real on the binary64 grid,
  an infinity or a NaN. The two zeros are one value here: the code never reads the sign
  of a zero (a division by either zero raises, and neither is greater than 0).
\<close>

datatype double = Finite real | PosInf | NegInf | NaN

text \<open>
  Rounding to nearest, ties to even. A real \<open>x\<close> with \<open>2^e \<le> |x| < 2^(e+1)\<close> is rounded to a
  multiple of \<open>2^(e-52)\<close>, and to a multiple of \<open>2^-1074\<close> in the subnormal range; a result
  of magnitude \<open>2^1024\<close> or more is an infinity.
\<close>

definition round_half_even :: "real \<Rightarrow> int" where
  "round_half_even t =
     (let f = \<lfloor>t\<rfloor>
      in if t - of_int f < 1 / 2 then f
         else if t - of_int f > 1 / 2 then f + 1
         else if even f then f else f + 1)"

definition ulp_exponent :: "real \<Rightarrow> int" where
  "ulp_exponent x = max (- 1074) (\<lfloor>log 2 \<bar>x\<bar>\<rfloor> - 52)"

definition to_grid :: "real \<Rightarrow> real" where
  "to_grid x =
     (if x = 0 then 0
      else of_int (round_half_even (x / 2 powr of_int (ulp_exponent x)))
           * 2 powr of_int (ulp_exponent x))"

definition round_double :: "real \<Rightarrow> double" where
  "round_double x =
     (let r = to_grid x
      in if r \<ge> 2 ^ 1024 then PosInf
         else if r \<le> - (2 ^ 1024) then NegInf
         else Finite r)"

text \<open>
  An \<open>int\<close> operand of a float operation is converted first; the conversion raises
  \<open>OverflowError\<close> when the integer rounds to an infinity.
\<close>

definition double_of_int :: "int \<Rightarrow> py_exception + double" where
  "double_of_int k =
     (case round_double (of_int k) of
        Finite r \<Rightarrow> Inr (Finite r)
      | PosInf \<Rightarrow> Inl OverflowError
      | NegInf \<Rightarrow> Inl OverflowError
      | NaN \<Rightarrow> Inl OverflowError)"

text \<open>
  Float multiplication and addition never raise: they round, overflow to an infinity
  and give NaN for \<open>inf * 0\<close> and \<open>inf - inf\<close>. Python's \<open>/\<close> raises \<open>ZeroDivisionError\<close> for
  a zero divisor, whatever the dividend.
\<close>

fun double_mul :: "double \<Rightarrow> double \<Rightarrow> double" where
  "double_mul NaN y = NaN"
| "double_mul x NaN = NaN"
| "double_mul (Finite a) (Finite b) = round_double (a * b)"
| "double_mul (Finite a) PosInf = (if a = 0 then NaN else if a > 0 then PosInf else NegInf)"
| "double_mul (Finite a) NegInf = (if a = 0 then NaN else if a > 0 then NegInf else PosInf)"
| "double_mul PosInf (Finite b) = (if b = 0 then NaN else if b > 0 then PosInf else NegInf)"
| "double_mul NegInf (Finite b) = (if b = 0 then NaN else if b > 0 then NegInf else PosInf)"
| "double_mul PosInf PosInf = PosInf"
| "double_mul PosInf NegInf = NegInf"
| "double_mul NegInf PosInf = NegInf"
| "double_mul NegInf NegInf = PosInf"

fun double_add :: "double \<Rightarrow> double \<Rightarrow> double" where
  "double_add NaN y = NaN"
| "double_add x NaN = NaN"
| "double_add (Finite a) (Finite b) = round_double (a + b)"
| "double_add (Finite a) PosInf = PosInf"
| "double_add (Finite a) NegInf = NegInf"
| "double_add PosInf (Finite b) = PosInf"
| "double_add NegInf (Finite b) = NegInf"
| "double_add PosInf PosInf = PosInf"
| "double_add NegInf NegInf = NegInf"
| "double_add PosInf NegInf = NaN"
| "double_add NegInf PosInf = NaN"

fun double_truediv :: "double \<Rightarrow> double \<Rightarrow> py_exception + double" where
  "double_truediv x (Finite b) =
     (if b = 0 then Inl ZeroDivisionError
      else case x of
             Finite a \<Rightarrow> Inr (round_double (a / b))
           | PosInf \<Rightarrow> Inr (if b > 0 then PosInf else NegInf)
           | NegInf \<Rightarrow> Inr (if b > 0 then NegInf else PosInf)
           | NaN \<Rightarrow> Inr NaN)"
| "double_truediv (Finite a) PosInf = Inr (Finite 0)"
| "double_truediv (Finite a) NegInf = Inr (Finite 0)"
| "double_truediv x y = Inr NaN"

text \<open>The comparison \<open>x > 0\<close> of a float with the integer 0; it is false for NaN.\<close>

fun double_gt_zero :: "double \<Rightarrow> bool" where
  "double_gt_zero (Finite a) = (a > 0)"
| "double_gt_zero PosInf = True"
| "double_gt_zero NegInf = False"
| "double_gt_zero NaN = False"

text \<open>\<open>BatchOptimizerMetrics\<close> with its float fields as doubles.\<close>

record BatchOptimizerMetrics_d =
  total_requests_d :: int
  batches_processed_d :: int
  avg_batch_size_d :: double
  peak_batch_size_d :: int
  critical_requests_d :: int
  high_priority_requests_d :: int
  normal_requests_d :: int
  low_priority_requests_d :: int
  avg_wait_time_ms_d :: double
  avg_processing_time_ms_d :: double
  throughput_req_per_sec_d :: double
  avg_gpu_utilization_d :: double
  gpu_samples_d :: "double list"
  batch_efficiency_d :: double
  coalescing_rate_d :: double
  last_updated_d :: double

definition initial_metrics_d :: "double \<Rightarrow> BatchOptimizerMetrics_d" where
  "initial_metrics_d now =
     \<lparr> total_requests_d = 0, batches_processed_d = 0, avg_batch_size_d = Finite 0,
       peak_batch_size_d = 0, critical_requests_d = 0, high_priority_requests_d = 0,
       normal_requests_d = 0, low_priority_requests_d = 0, avg_wait_time_ms_d = Finite 0,
       avg_processing_time_ms_d = Finite 0, throughput_req_per_sec_d = Finite 0,
       avg_gpu_utilization_d = Finite 0, gpu_samples_d = [],
       batch_efficiency_d = Finite 0,
       coalescing_rate_d = Finite 0, last_updated_d = now \<rparr>"

text \<open>
  The running mean \<open>(mean * (n - 1) + x) / n\<close> of a float \<open>x\<close>, in the order Python
  evaluates it: \<open>n - 1\<close> is converted for the product, \<open>n\<close> for the quotient.
\<close>

definition running_mean_d :: "double \<Rightarrow> int \<Rightarrow> double \<Rightarrow> py_exception + double" where
  "running_mean_d mean n x =
     (case double_of_int (n - 1) of
        Inl e \<Rightarrow> Inl e
      | Inr k \<Rightarrow>
          (case double_of_int n of
             Inl e \<Rightarrow> Inl e
           | Inr nd \<Rightarrow> double_truediv (double_add (double_mul mean k) x) nd))"

text \<open>
  The statements of \<open>_update_metrics\<close> in source order. An exception leaves the fields
  assigned before it, so each step returns the metrics as they are when it raises.
  \<open>update_sizes_d\<close>: average and peak batch size (the state passed in already has
  \<open>batches_processed\<close> incremented).
\<close>

definition update_sizes_d ::
  "int \<Rightarrow> BatchOptimizerMetrics_d \<Rightarrow> py_exception + BatchOptimizerMetrics_d" where
  "update_sizes_d batch_size m =
     (case double_of_int (batches_processed_d m - 1) of
        Inl e \<Rightarrow> Inl e
      | Inr k \<Rightarrow>
          (case double_of_int batch_size of
             Inl e \<Rightarrow> Inl e
           | Inr b \<Rightarrow>
               (case double_of_int (batches_processed_d m) of
                  Inl e \<Rightarrow> Inl e
                | Inr nd \<Rightarrow>
                    (case double_truediv
                            (double_add (double_mul (avg_batch_size_d m) k) b) nd of
                       Inl e \<Rightarrow> Inl e
                     | Inr v \<Rightarrow>
                         let m1 = m\<lparr>avg_batch_size_d := v\<rparr>
                         in Inr (if batch_size > peak_batch_size_d m1
                                 then m1\<lparr>peak_batch_size_d := batch_size\<rparr>
                                 else m1)))))"

text \<open>\<open>update_processing_time_d\<close>: average processing time, then the guarded throughput.\<close>

definition update_processing_time_d ::
  "int \<Rightarrow> double \<Rightarrow> BatchOptimizerMetrics_d \<Rightarrow> py_exception option \<times> BatchOptimizerMetrics_d" where
  "update_processing_time_d batch_size processing_time_ms m =
     (case running_mean_d (avg_processing_time_ms_d m) (batches_processed_d m)
             processing_time_ms of
        Inl e \<Rightarrow> (Some e, m)
      | Inr v \<Rightarrow>
          let m1 = m\<lparr>avg_processing_time_ms_d := v\<rparr>
          in if double_gt_zero processing_time_ms then
               (case double_of_int batch_size of
                  Inl e \<Rightarrow> (Some e, m1)
                | Inr b \<Rightarrow>
                    (case double_truediv b processing_time_ms of
                       Inl e \<Rightarrow> (Some e, m1)
                     | Inr q \<Rightarrow>
                         (None, m1\<lparr>throughput_req_per_sec_d :=
                                      double_mul q (Finite 1000)\<rparr>)))
             else (None, m1))"

text \<open>
  \<open>update_efficiency_d\<close>: the unguarded division by the running-mean processing time,
  the guarded efficiency and the time stamp.
\<close>

definition update_efficiency_d ::
  "BatchOptimizerConfig \<Rightarrow> double \<Rightarrow> BatchOptimizerMetrics_d \<Rightarrow> py_exception option \<times> BatchOptimizerMetrics_d" where
  "update_efficiency_d cfg now m =
     (case double_of_int (max_batch_size cfg) of
        Inl e \<Rightarrow> (Some e, m)
      | Inr mb \<Rightarrow>
          (case double_truediv mb (avg_processing_time_ms_d m) of
             Inl e \<Rightarrow> (Some e, m)
           | Inr theoretical_throughput \<Rightarrow>
               if double_gt_zero theoretical_throughput then
                 (case double_truediv (throughput_req_per_sec_d m) theoretical_throughput of
                    Inl e \<Rightarrow> (Some e, m)
                  | Inr eff \<Rightarrow> (None, m\<lparr>batch_efficiency_d := eff, last_updated_d := now\<rparr>))
               else (None, m\<lparr>last_updated_d := now\<rparr>)))"

definition update_metrics_d ::
  "BatchOptimizerConfig \<Rightarrow> double \<Rightarrow> int \<Rightarrow> double \<Rightarrow> BatchOptimizerMetrics_d \<Rightarrow>
     py_exception option \<times> BatchOptimizerMetrics_d" where
  "update_metrics_d cfg now batch_size processing_time_ms m =
     (let m1 = m\<lparr>batches_processed_d := batches_processed_d m + 1\<rparr>
      in case update_sizes_d batch_size m1 of
           Inl e \<Rightarrow> (Some e, m1)
         | Inr m2 \<Rightarrow>
             (case update_processing_time_d batch_size processing_time_ms m2 of
                (Some e, m3) \<Rightarrow> (Some e, m3)
              | (None, m3) \<Rightarrow> update_efficiency_d cfg now m3))"

text \<open>
  The metrics after a history of calls, each given as (batch size, processing time,
  clock reading), whether or not a call raised.
\<close>

fun metrics_after_d ::
  "BatchOptimizerConfig \<Rightarrow> (int \<times> double \<times> double) list \<Rightarrow> BatchOptimizerMetrics_d \<Rightarrow> BatchOptimizerMetrics_d" where
  "metrics_after_d cfg [] m = m"
| "metrics_after_d cfg ((batch_size, processing_time_ms, now) # calls) m =
     metrics_after_d cfg calls
       (snd (update_metrics_d cfg now batch_size processing_time_ms m))"

text \<open>
  \<open>min_subnormal\<close> is the smallest positive double, \<open>5e-324\<close>. \<open>double_ge x d\<close> says that the
  double \<open>x\<close> is at least the real \<open>d\<close>, \<open>double_nonneg x\<close> that it is at least 0; both are
  false for NaN.
\<close>

definition min_subnormal :: real where
  "min_subnormal = 2 powr (- 1074)"

fun double_ge :: "double \<Rightarrow> real \<Rightarrow> bool" where
  "double_ge (Finite a) d = (d \<le> a)"
| "double_ge PosInf d = True"
| "double_ge NegInf d = False"
| "double_ge NaN d = False"

fun double_nonneg :: "double \<Rightarrow> bool" where
  "double_nonneg (Finite a) = (a \<ge> 0)"
| "double_nonneg PosInf = True"
| "double_nonneg NegInf = False"
| "double_nonneg NaN = False"

section \<open>Result handles and the optimizer state\<close>

text \<open>
  An \<open>asyncio.Future\<close> is pending, holds a result, holds an exception or is cancelled
  (\<open>asyncio.wait_for\<close> cancels the future of a \<open>submit_request\<close> that timed out);
  \<open>done()\<close> is true in every state but the first, and \<open>set_result\<close> and
  \<open>set_exception\<close> raise \<open>InvalidStateError\<close> on a future that is done.
\<close>

datatype 'r future_state =
    FutPending
  | FutResult 'r
  | FutException py_exception
  | FutCancelled

fun future_done :: "'r future_state \<Rightarrow> bool" where
  "future_done FutPending = False"
| "future_done (FutResult r) = True"
| "future_done (FutException e) = True"
| "future_done FutCancelled = True"

definition set_result :: "'r \<Rightarrow> 'r future_state \<Rightarrow> py_exception + 'r future_state" where
  "set_result r f = (if future_done f then Inl InvalidStateError else Inr (FutResult r))"

definition set_exception ::
  "py_exception \<Rightarrow> 'r future_state \<Rightarrow> py_exception + 'r future_state" where
  "set_exception e f =
     (if future_done f then Inl InvalidStateError else Inr (FutException e))"

text \<open>
  The mutable fields of \<open>BatchOptimizer\<close>, and the store of the futures that the
  requests point to. The configuration, the processor and the monitor never change and
  are parameters of the operations.
\<close>

record ('d, 'r) BatchOptimizer =
  request_heap :: "'d PrioritizedRequest list"
  metrics :: BatchOptimizerMetrics
  request_times :: "string \<rightharpoonup> real"
  coalescing_cache :: "string \<rightharpoonup> string list"
  futures :: "nat \<Rightarrow> 'r future_state"

section \<open>Coalescing: \<open>_coalesce_requests\<close>\<close>

text \<open>
  \<open>groups\<close> is a dictionary, which keeps its keys in the order of their first
  insertion: an association list, a new key going to the end. \<open>payload_hash\<close> stands
  for \<open>str(hash(str(sorted(req.request_data.items()))))\<close>.
\<close>

fun add_to_group :: "string \<Rightarrow> 'a \<Rightarrow> (string \<times> 'a list) list \<Rightarrow> (string \<times> 'a list) list" where
  "add_to_group h r [] = [(h, [r])]"
| "add_to_group h r ((k, g) # gs) =
     (if k = h then (k, g @ [r]) # gs else (k, g) # add_to_group h r gs)"

definition group_requests ::
  "('d \<Rightarrow> string) \<Rightarrow> 'd PrioritizedRequest list \<Rightarrow>
     (string \<times> 'd PrioritizedRequest list) list" where
  "group_requests payload_hash batch =
     fold (\<lambda>req. add_to_group (payload_hash (request_data req)) req) batch []"

text \<open>
  The second loop keeps the first request of every group. For a group of several
  requests it stores the ids of the others under the id of the first and updates
  \<open>coalescing_rate\<close>, whose division raises when \<open>batches_processed + 1\<close> is zero.
\<close>

definition note_coalesced ::
  "'d PrioritizedRequest \<Rightarrow> 'd PrioritizedRequest list \<Rightarrow> ('d, 'r) BatchOptimizer \<Rightarrow>
     py_exception option \<times> ('d, 'r) BatchOptimizer" where
  "note_coalesced primary others s =
     (let s1 = s\<lparr>coalescing_cache :=
                   (coalescing_cache s)(request_id primary \<mapsto> map request_id others)\<rparr>;
          m = metrics s1
      in if batches_processed m + 1 = 0 then (Some ZeroDivisionError, s1)
         else (None,
               s1\<lparr>metrics := m\<lparr>coalescing_rate :=
                     (coalescing_rate m * real_of_int (batches_processed m)
                      + real_of_int (int (length (primary # others)) - 1))
                     / real_of_int (batches_processed m + 1)\<rparr>\<rparr>))"

fun coalesce_groups ::
  "(string \<times> 'd PrioritizedRequest list) list \<Rightarrow> 'd PrioritizedRequest list \<Rightarrow>
     ('d, 'r) BatchOptimizer \<Rightarrow>
     (py_exception + 'd PrioritizedRequest list) \<times> ('d, 'r) BatchOptimizer" where
  "coalesce_groups [] coalesced s = (Inr coalesced, s)"
| "coalesce_groups ((req_hash, []) # groups) coalesced s = (Inl IndexError, s)"
| "coalesce_groups ((req_hash, primary # others) # groups) coalesced s =
     (if length (primary # others) > 1 then
        (case note_coalesced primary others s of
           (Some e, s1) \<Rightarrow> (Inl e, s1)
         | (None, s1) \<Rightarrow> coalesce_groups groups (coalesced @ [primary]) s1)
      else coalesce_groups groups (coalesced @ [primary]) s)"

definition coalesce_requests ::
  "('d \<Rightarrow> string) \<Rightarrow> 'd PrioritizedRequest list \<Rightarrow> ('d, 'r) BatchOptimizer \<Rightarrow>
     (py_exception + 'd PrioritizedRequest list) \<times> ('d, 'r) BatchOptimizer" where
  "coalesce_requests payload_hash batch s =
     coalesce_groups (group_requests payload_hash batch) [] s"

section \<open>Dispatch: \<open>_process_batch\<close>\<close>

text \<open>
  The guarded completions. The guard \<open>if not req.future.done()\<close> is kept apart from
  \<open>set_result\<close> and \<open>set_exception\<close>, which would raise on a completed future.
\<close>

definition complete_with_result ::
  "'d PrioritizedRequest \<Rightarrow> 'r \<Rightarrow> ('d, 'r) BatchOptimizer \<Rightarrow>
     py_exception + ('d, 'r) BatchOptimizer" where
  "complete_with_result req result s =
     (if \<not> future_done (futures s (future req)) then
        (case set_result result (futures s (future req)) of
           Inl e \<Rightarrow> Inl e
         | Inr f \<Rightarrow> Inr (s\<lparr>futures := (futures s)(future req := f)\<rparr>))
      else Inr s)"

definition complete_with_exception ::
  "'d PrioritizedRequest \<Rightarrow> py_exception \<Rightarrow> ('d, 'r) BatchOptimizer \<Rightarrow>
     py_exception + ('d, 'r) BatchOptimizer" where
  "complete_with_exception req e s =
     (if \<not> future_done (futures s (future req)) then
        (case set_exception e (futures s (future req)) of
           Inl e' \<Rightarrow> Inl e'
         | Inr f \<Rightarrow> Inr (s\<lparr>futures := (futures s)(future req := f)\<rparr>))
      else Inr s)"

text \<open>
  The result-sharing step: the loop over the recorded ids has the body \<open>pass\<close>, then
  the entry is deleted.
\<close>

definition share_with_coalesced ::
  "'d PrioritizedRequest \<Rightarrow> ('d, 'r) BatchOptimizer \<Rightarrow> ('d, 'r) BatchOptimizer" where
  "share_with_coalesced req s =
     (case coalescing_cache s (request_id req) of
        None \<Rightarrow> s
      | Some coalesced_ids \<Rightarrow>
          s\<lparr>coalescing_cache := (coalescing_cache s)(request_id req := None)\<rparr>)"

definition record_wait_time ::
  "real \<Rightarrow> 'd PrioritizedRequest \<Rightarrow> ('d, 'r) BatchOptimizer \<Rightarrow> ('d, 'r) BatchOptimizer" where
  "record_wait_time now req s =
     (case request_times s (request_id req) of
        None \<Rightarrow> s
      | Some t \<Rightarrow>
          s\<lparr>metrics := update_wait_time ((now - t) * 1000) (metrics s),
            request_times := (request_times s)(request_id req := None)\<rparr>)"

text \<open>
  The loop over \<open>zip(batch, results)\<close>; \<open>clock i\<close> is the reading of \<open>time.time\<close> at
  the \<open>i\<close>-th pair.
\<close>

fun distribute_results ::
  "(nat \<Rightarrow> real) \<Rightarrow> nat \<Rightarrow> ('d PrioritizedRequest \<times> 'r) list \<Rightarrow>
     ('d, 'r) BatchOptimizer \<Rightarrow> py_exception option \<times> ('d, 'r) BatchOptimizer" where
  "distribute_results clock i [] s = (None, s)"
| "distribute_results clock i ((req, result) # rest) s =
     (case complete_with_result req result s of
        Inl e \<Rightarrow> (Some e, s)
      | Inr s1 \<Rightarrow>
          distribute_results clock (Suc i) rest
            (record_wait_time (clock i) req (share_with_coalesced req s1)))"

text \<open>The loop of the \<open>except\<close> handler.\<close>

fun fail_batch ::
  "py_exception \<Rightarrow> 'd PrioritizedRequest list \<Rightarrow> ('d, 'r) BatchOptimizer \<Rightarrow>
     py_exception option \<times> ('d, 'r) BatchOptimizer" where
  "fail_batch e [] s = (None, s)"
| "fail_batch e (req # rest) s =
     (case complete_with_exception req e s of
        Inl e' \<Rightarrow> (Some e', s)
      | Inr s1 \<Rightarrow> fail_batch e rest s1)"

text \<open>
  The processor is \<open>None\<close> when none is configured, and the default handler then
  builds one result per request from its payload (\<open>default_handler\<close>); a configured
  processor returns its results or raises.
\<close>

definition run_processor ::
  "('d list \<Rightarrow> py_exception + 'r list) option \<Rightarrow> ('d \<Rightarrow> 'r) \<Rightarrow>
     'd PrioritizedRequest list \<Rightarrow> py_exception + 'r list" where
  "run_processor processor default_handler batch =
     (case processor of
        Some p \<Rightarrow> p (map request_data batch)
      | None \<Rightarrow> Inr (map (\<lambda>req. default_handler (request_data req)) batch))"

text \<open>The \<open>try\<close> block followed by its handler.\<close>

definition dispatch ::
  "('d list \<Rightarrow> py_exception + 'r list) option \<Rightarrow> ('d \<Rightarrow> 'r) \<Rightarrow> (nat \<Rightarrow> real) \<Rightarrow>
     'd PrioritizedRequest list \<Rightarrow> ('d, 'r) BatchOptimizer \<Rightarrow>
     py_exception option \<times> ('d, 'r) BatchOptimizer" where
  "dispatch processor default_handler clock batch s =
     (case (case run_processor processor default_handler batch of
              Inl e \<Rightarrow> (Some e, s)
            | Inr results \<Rightarrow> distribute_results clock 1 (zip batch results) s) of
        (None, s1) \<Rightarrow> (None, s1)
      | (Some e, s1) \<Rightarrow> fail_batch e batch s1)"

text \<open>
  \<open>clock 0\<close> is \<open>start_time\<close>, \<open>clock (n + 1)\<close> the reading after the handler and
  \<open>clock (n + 2)\<close> the one stored in \<open>last_updated\<close>, for a batch of \<open>n\<close> requests.
\<close>

definition process_batch ::
  "BatchOptimizerConfig \<Rightarrow> ('d list \<Rightarrow> py_exception + 'r list) option \<Rightarrow> ('d \<Rightarrow> 'r) \<Rightarrow>
     (nat \<Rightarrow> real) \<Rightarrow> 'd PrioritizedRequest list \<Rightarrow> ('d, 'r) BatchOptimizer \<Rightarrow>
     py_exception option \<times> ('d, 'r) BatchOptimizer" where
  "process_batch cfg processor default_handler clock batch s =
     (if batch = [] then (None, s)
      else
        let start_time = clock 0
        in (case dispatch processor default_handler clock batch s of
              (Some e, s1) \<Rightarrow> (Some e, s1)
            | (None, s1) \<Rightarrow>
                let processing_time = (clock (Suc (length batch)) - start_time) * 1000
                in (case update_metrics cfg (clock (Suc (Suc (length batch))))
                           (int (length batch)) processing_time (metrics s1) of
                      (r, m) \<Rightarrow> (r, s1\<lparr>metrics := m\<rparr>))))"

section \<open>The admission queue: \<open>heapq\<close> on \<open>PrioritizedRequest\<close>\<close>

text \<open>
  \<open>@dataclass(order=True)\<close> compares two requests as the tuples
  \<open>(priority, timestamp)\<close>, the other fields having \<open>compare=False\<close>; \<open>req_lt\<close> is
  the generated \<open>__lt__\<close>.
\<close>

definition req_lt :: "'d PrioritizedRequest \<Rightarrow> 'd PrioritizedRequest \<Rightarrow> bool" where
  "req_lt a b =
     (priority a < priority b \<or> (priority a = priority b \<and> timestamp a < timestamp b))"

text \<open>
  The queue is a Python list handled by \<open>heapq.heappush\<close> and \<open>heapq.heappop\<close>.
  The functions below follow \<open>_siftdown\<close>, \<open>heappush\<close>, \<open>_siftup\<close> and \<open>heappop\<close>
  of the standard library line by line. \<open>_siftdown\<close> carries \<open>newitem\<close> towards the
  root; every index it reads lies below \<open>pos\<close>, which is in range at each call.
\<close>

function siftdown_loop ::
  "'d PrioritizedRequest list \<Rightarrow> nat \<Rightarrow> nat \<Rightarrow> 'd PrioritizedRequest \<Rightarrow>
     'd PrioritizedRequest list" where
  "siftdown_loop heap startpos pos newitem =
     (if pos > startpos then
        (let parentpos = (pos - 1) div 2;
             parent = heap ! parentpos
         in if req_lt newitem parent
            then siftdown_loop (heap[pos := parent]) startpos parentpos newitem
            else heap[pos := newitem])
      else heap[pos := newitem])"
  by pat_completeness auto
termination
  by (relation "measure (\<lambda>(heap, startpos, pos, newitem). pos)") auto

declare siftdown_loop.simps [simp del]

definition siftdown ::
  "'d PrioritizedRequest list \<Rightarrow> nat \<Rightarrow> nat \<Rightarrow> 'd PrioritizedRequest list" where
  "siftdown heap startpos pos = siftdown_loop heap startpos pos (heap ! pos)"

definition heappush ::
  "'d PrioritizedRequest list \<Rightarrow> 'd PrioritizedRequest \<Rightarrow> 'd PrioritizedRequest list" where
  "heappush heap item = siftdown (heap @ [item]) 0 (length (heap @ [item]) - 1)"

text \<open>
  \<open>_siftup\<close> moves the smaller child up until the hole is a leaf, puts \<open>newitem\<close>
  there and lets \<open>_siftdown\<close> carry it back up. \<open>siftup_loop\<close> is its \<open>while\<close> loop and
  returns the list with the final position of the hole.
\<close>

function siftup_loop ::
  "'d PrioritizedRequest list \<Rightarrow> nat \<Rightarrow> nat \<Rightarrow> 'd PrioritizedRequest list \<times> nat" where
  "siftup_loop heap endpos pos =
     (let childpos = 2 * pos + 1
      in if childpos < endpos then
           (let rightpos = childpos + 1;
                childpos' = (if rightpos < endpos \<and>
                                \<not> req_lt (heap ! childpos) (heap ! rightpos)
                             then rightpos else childpos)
            in siftup_loop (heap[pos := heap ! childpos']) endpos childpos')
         else (heap, pos))"
  by pat_completeness auto
termination
  by (relation "measure (\<lambda>(heap, endpos, pos). endpos - pos)") auto

declare siftup_loop.simps [simp del]

definition siftup :: "'d PrioritizedRequest list \<Rightarrow> nat \<Rightarrow> 'd PrioritizedRequest list" where
  "siftup heap pos =
     (let endpos = length heap;
          startpos = pos;
          newitem = heap ! pos
      in case siftup_loop heap endpos pos of
           (heap', pos') \<Rightarrow> siftdown (heap'[pos' := newitem]) startpos pos')"

text \<open>\<open>heappop\<close> raises \<open>IndexError\<close> on the empty list (\<open>heap.pop()\<close>).\<close>

definition heappop ::
  "'d PrioritizedRequest list \<Rightarrow>
     py_exception + ('d PrioritizedRequest \<times> 'd PrioritizedRequest list)" where
  "heappop heap =
     (if heap = [] then Inl IndexError
      else
        let lastelt = last heap;
            heap1 = butlast heap
        in if heap1 \<noteq> [] then Inr (heap1 ! 0, siftup (heap1[0 := lastelt]) 0)
           else Inr (lastelt, heap1))"

text \<open>
  The heap invariant of \<open>heapq\<close>: no element is smaller than its parent. \<open>hole_inv\<close>
  is the same invariant for a list whose position \<open>p\<close> is being refilled: it holds for
  all pairs that do not involve \<open>p\<close>, and the children of \<open>p\<close> are not smaller than the
  parent of \<open>p\<close>.
\<close>

definition req_le :: "'d PrioritizedRequest \<Rightarrow> 'd PrioritizedRequest \<Rightarrow> bool" where
  "req_le a b = (\<not> req_lt b a)"

definition heap_inv :: "'d PrioritizedRequest list \<Rightarrow> bool" where
  "heap_inv heap =
     (\<forall>i \<in> {1..<length heap}. req_le (heap ! ((i - 1) div 2)) (heap ! i))"


section \<open>Submission and collection: \<open>submit_request\<close>, \<open>_collect_batch\<close>\<close>

text \<open>
  What \<open>submit_request\<close> does to the optimizer before it waits for its future: the push
  and the entry in \<open>_request_times\<close> under the lock, then the counters.
\<close>

definition count_request :: "int \<Rightarrow> BatchOptimizerMetrics \<Rightarrow> BatchOptimizerMetrics" where
  "count_request p m =
     (let m1 = m\<lparr>total_requests := total_requests m + 1\<rparr>
      in if p = priority_value CRITICAL
         then m1\<lparr>critical_requests := critical_requests m1 + 1\<rparr>
         else if p = priority_value HIGH
         then m1\<lparr>high_priority_requests := high_priority_requests m1 + 1\<rparr>
         else if p = priority_value NORMAL
         then m1\<lparr>normal_requests := normal_requests m1 + 1\<rparr>
         else m1\<lparr>low_priority_requests := low_priority_requests m1 + 1\<rparr>)"

definition enqueue ::
  "'d PrioritizedRequest \<Rightarrow> real \<Rightarrow> ('d, 'r) BatchOptimizer \<Rightarrow> ('d, 'r) BatchOptimizer" where
  "enqueue req now s =
     s\<lparr>request_heap := heappush (request_heap s) req,
       request_times := (request_times s)(request_id req \<mapsto> now),
       metrics := count_request (priority req) (metrics s)\<rparr>"

text \<open>
  The collector's own use of \<open>_heap_lock\<close> and its sleeps, in the order they happen.
  \<open>suspended_holding_lock held es\<close> tells whether some \<open>Sleep\<close> of \<open>es\<close> happens between
  an \<open>Acquire\<close> and its \<open>Release\<close> (or while the lock is held already).
\<close>

datatype collector_event = Acquire | Release | Sleep

fun suspended_holding_lock :: "bool \<Rightarrow> collector_event list \<Rightarrow> bool" where
  "suspended_holding_lock held [] = False"
| "suspended_holding_lock held (Acquire # es) = suspended_holding_lock True es"
| "suspended_holding_lock held (Release # es) = suspended_holding_lock False es"
| "suspended_holding_lock held (Sleep # es) = (held \<or> suspended_holding_lock held es)"

text \<open>
  The \<open>while\<close> loop of \<open>_collect_batch\<close>. What the other tasks and the clock do is
  given by a schedule with one entry per iteration: the requests (with the time of their
  submission) that producers push before the collector gets the lock in that iteration,
  and the reading of \<open>time.time()\<close> at the timeout check. The loop takes the lock, pops
  when the heap is not empty, leaves when the heap is empty and the batch is not, and
  otherwise sleeps one millisecond, inside the \<open>async with\<close> block, so before the lock
  is released. The result is \<open>None\<close> when the schedule ends before the loop does.
\<close>

fun collect_loop ::
  "int \<Rightarrow> real \<Rightarrow> real \<Rightarrow> (('d PrioritizedRequest \<times> real) list \<times> real) list \<Rightarrow>
     ('d, 'r) BatchOptimizer \<Rightarrow> 'd PrioritizedRequest list \<Rightarrow> collector_event list \<Rightarrow>
     (py_exception option \<times> ('d, 'r) BatchOptimizer \<times> 'd PrioritizedRequest list \<times>
      collector_event list) option" where
  "collect_loop target_size timeout start_time [] s batch trace =
     (if int (length batch) < target_size then None else Some (None, s, batch, trace))"
| "collect_loop target_size timeout start_time ((arrivals, now) # schedule) s batch trace =
     (if int (length batch) < target_size then
        (let s1 = fold (\<lambda>(req, t). enqueue req t) arrivals s;
             trace1 = trace @ [Acquire]
         in if request_heap s1 \<noteq> [] then
              (case heappop (request_heap s1) of
                 Inl e \<Rightarrow> Some (Some e, s1, batch, trace1 @ [Release])
               | Inr (req, heap') \<Rightarrow>
                   if (now - start_time) * 1000 > timeout
                   then Some (None, s1\<lparr>request_heap := heap'\<rparr>, batch @ [req],
                              trace1 @ [Release])
                   else collect_loop target_size timeout start_time schedule
                          (s1\<lparr>request_heap := heap'\<rparr>) (batch @ [req])
                          (trace1 @ [Release]))
            else if batch \<noteq> [] then Some (None, s1, batch, trace1 @ [Release])
            else if (now - start_time) * 1000 > timeout
            then Some (None, s1, batch, trace1 @ [Sleep, Release])
            else collect_loop target_size timeout start_time schedule s1 batch
                   (trace1 @ [Sleep, Release]))
      else Some (None, s, batch, trace))"

text \<open>
  \<open>_collect_batch\<close>: the timeout from the queue length at the call, the loop, and the
  coalescing of a batch of more than one request when it is enabled.
\<close>

definition collect_batch ::
  "BatchOptimizerConfig \<Rightarrow> ('d \<Rightarrow> string) \<Rightarrow> int \<Rightarrow> real \<Rightarrow>
     (('d PrioritizedRequest \<times> real) list \<times> real) list \<Rightarrow> ('d, 'r) BatchOptimizer \<Rightarrow>
     ((py_exception + 'd PrioritizedRequest list) \<times> ('d, 'r) BatchOptimizer \<times>
      collector_event list) option" where
  "collect_batch cfg payload_hash target_size start_time schedule s =
     (case calculate_timeout cfg (length (request_heap s)) target_size of
        Inl e \<Rightarrow> Some (Inl e, s, [])
      | Inr timeout \<Rightarrow>
          (case collect_loop target_size timeout start_time schedule s [] [] of
             None \<Rightarrow> None
           | Some (Some e, s1, batch, trace) \<Rightarrow> Some (Inl e, s1, trace)
           | Some (None, s1, batch, trace) \<Rightarrow>
               if enable_coalescing cfg \<and> length batch > 1 then
                 (case coalesce_requests payload_hash batch s1 of
                    (res, s2) \<Rightarrow> Some (res, s2, trace))
               else Some (Inr batch, s1, trace)))"


section \<open>Example requests and states\<close>

definition req_a :: "string PrioritizedRequest" where
  "req_a = \<lparr> priority = 2, timestamp = 1, request_id = ''req_a'', request_data = ''x'',
             future = 0 \<rparr>"


definition req_c :: "string PrioritizedRequest" where
  "req_c = \<lparr> priority = 2, timestamp = 3, request_id = ''req_c'', request_data = ''y'',
             future = 2 \<rparr>"

definition idle_optimizer :: "(string, string) BatchOptimizer" where
  "idle_optimizer =
     \<lparr> request_heap = [], metrics = initial_metrics 0, request_times = Map.empty,
       coalescing_cache = Map.empty, futures = (\<lambda>a. FutPending) \<rparr>"

definition timed_out_optimizer :: "(string, string) BatchOptimizer" where
  "timed_out_optimizer =
     idle_optimizer\<lparr>futures := (\<lambda>a. if a = 0 then FutCancelled else FutPending)\<rparr>"

definition failing_processor :: "string list \<Rightarrow> py_exception + string list" where
  "failing_processor payloads = Inl (OtherError ''boom'')"

definition example_clock :: "nat \<Rightarrow> real" where
  "example_clock i = real i"

definition critical_request :: "unit PrioritizedRequest" where
  "critical_request =
     \<lparr> priority = 0, timestamp = 0, request_id = ''req_a'', request_data = (),
       future = 0 \<rparr>"

definition strict_min_config :: BatchOptimizerConfig where
  "strict_min_config = default_config\<lparr>min_batch_size := 2\<rparr>"



definition late_arrival_schedule ::
  "((string PrioritizedRequest \<times> real) list \<times> real) list" where
  "late_arrival_schedule =
     [([], 1 / 1000), ([(req_a, 15 / 10000)], 2 / 1000), ([], 3 / 1000)]"



section \<open>Batch sizing\<close>

lemma gpu_stage_bounds:
  assumes "min_batch_size cfg \<le> target_batch_size cfg"
      and "target_batch_size cfg \<le> max_batch_size cfg"
  shows "min_batch_size cfg \<le> fst (gpu_stage cfg gpu_monitor m) \<and>
         fst (gpu_stage cfg gpu_monitor m) \<le> max_batch_size cfg"
  using assms
  by (auto simp: gpu_stage_def gpu_adjust_def Let_def
           split: option.splits sum.splits prod.splits if_splits)

lemma priority_stage_bounds:
  assumes "min_batch_size cfg \<le> b" and "b \<le> max_batch_size cfg"
      and "min_batch_size cfg \<le> critical_batch_size cfg"
      and "critical_batch_size cfg \<le> max_batch_size cfg"
      and "min_batch_size cfg \<le> high_priority_batch_size cfg"
  shows "min_batch_size cfg \<le> priority_stage cfg heap b \<and>
         priority_stage cfg heap b \<le> max_batch_size cfg"
  using assms by (auto simp: priority_stage_def split: list.splits)

text \<open>
  Claim C1, as stated: for every configuration the returned size lies between
  \<open>min_batch_size\<close> and \<open>max_batch_size\<close>. The code never clamps the critical override:
  with \<open>min_batch_size = 2\<close> and the default \<open>critical_batch_size = 1\<close>, a critical
  queue head gives the size 1, below the minimum.
\<close>

theorem batch_size_below_min_counterexample:
  "fst (calculate_optimal_batch_size strict_min_config None [critical_request]
          (initial_metrics 0)) = 1 \<and>
   min_batch_size strict_min_config = 2 \<and>
   \<not> (min_batch_size strict_min_config
        \<le> fst (calculate_optimal_batch_size strict_min_config None [critical_request]
                  (initial_metrics 0)))"
  by (simp add: calculate_optimal_batch_size_def gpu_stage_def priority_stage_def
                strict_min_config_def default_config_def critical_request_def)

text \<open>
  Claim C1, amended: for every configuration whose target size and critical size lie
  between \<open>min_batch_size\<close> and \<open>max_batch_size\<close> and whose high-priority size is at least
  \<open>min_batch_size\<close>, for every monitor outcome, every window of earlier samples and every
  queue, the size returned by \<open>_calculate_optimal_batch_size\<close> lies between
  \<open>min_batch_size\<close> and \<open>max_batch_size\<close>.
\<close>

theorem batch_size_within_bounds:
  assumes "min_batch_size cfg \<le> target_batch_size cfg"
      and "target_batch_size cfg \<le> max_batch_size cfg"
      and "min_batch_size cfg \<le> critical_batch_size cfg"
      and "critical_batch_size cfg \<le> max_batch_size cfg"
      and "min_batch_size cfg \<le> high_priority_batch_size cfg"
  shows "min_batch_size cfg
           \<le> fst (calculate_optimal_batch_size cfg gpu_monitor heap m) \<and>
         fst (calculate_optimal_batch_size cfg gpu_monitor heap m)
           \<le> max_batch_size cfg"
proof -
  obtain b m' where g: "gpu_stage cfg gpu_monitor m = (b, m')"
    by (cases "gpu_stage cfg gpu_monitor m")
  with gpu_stage_bounds[OF assms(1,2), of gpu_monitor m]
  have "min_batch_size cfg \<le> b" and "b \<le> max_batch_size cfg" by simp_all
  from priority_stage_bounds[OF this assms(3,4,5), of heap] g
  show ?thesis by (simp add: calculate_optimal_batch_size_def)
qed

theorem batch_size_within_bounds_witness:
  "min_batch_size default_config \<le> target_batch_size default_config \<and>
   target_batch_size default_config \<le> max_batch_size default_config \<and>
   min_batch_size default_config \<le> critical_batch_size default_config \<and>
   critical_batch_size default_config \<le> max_batch_size default_config \<and>
   min_batch_size default_config \<le> high_priority_batch_size default_config \<and>
   1 \<le> fst (calculate_optimal_batch_size default_config (Some (Inr (2 / 10)))
              [critical_request] (initial_metrics 0)) \<and>
   fst (calculate_optimal_batch_size default_config (Some (Inr (2 / 10)))
          [critical_request] (initial_metrics 0)) \<le> 64"
proof -
  have h: "min_batch_size default_config \<le> target_batch_size default_config"
          "target_batch_size default_config \<le> max_batch_size default_config"
          "min_batch_size default_config \<le> critical_batch_size default_config"
          "critical_batch_size default_config \<le> max_batch_size default_config"
          "min_batch_size default_config \<le> high_priority_batch_size default_config"
    by (simp_all add: default_config_def)
  from batch_size_within_bounds[OF h, of "Some (Inr (2 / 10))" "[critical_request]"
                                  "initial_metrics 0"] h
  show ?thesis by (simp add: default_config_def)
qed

text \<open>
  Claim C4: when the queue head has priority \<open>CRITICAL\<close> at the peek, the size returned
  by \<open>_calculate_optimal_batch_size\<close> is \<open>critical_batch_size\<close>, whatever the monitor
  returned and whatever the utilization adjustment made of the size before.
\<close>

theorem critical_head_gives_critical_batch_size:
  "priority top_req = priority_value CRITICAL \<Longrightarrow>
   fst (calculate_optimal_batch_size cfg gpu_monitor (top_req # rest) m)
     = critical_batch_size cfg"
  by (simp add: calculate_optimal_batch_size_def priority_stage_def split: prod.splits)

theorem critical_head_gives_critical_batch_size_witness:
  "priority critical_request = priority_value CRITICAL \<and>
   fst (gpu_stage default_config (Some (Inr (2 / 10))) (initial_metrics 0)) = 20 \<and>
   fst (calculate_optimal_batch_size default_config (Some (Inr (2 / 10)))
          [critical_request] (initial_metrics 0)) = 1"
proof -
  have p: "priority critical_request = priority_value CRITICAL"
    by (simp add: critical_request_def)
  have g: "fst (gpu_stage default_config (Some (Inr (2 / 10))) (initial_metrics 0)) = 20"
    by (simp add: gpu_stage_def gpu_adjust_def default_config_def initial_metrics_def
                  Let_def)
  from critical_head_gives_critical_batch_size
         [OF p, of default_config "Some (Inr (2 / 10))" "[]" "initial_metrics 0"] p g
  show ?thesis by (simp add: default_config_def)
qed

section \<open>Adaptive timeout\<close>

text \<open>
  Claim C6, as stated: the maximum timeout is returned when the queue length is below
  \<open>targetSize/2\<close>. The code compares with the floor \<open>batch_size // 2\<close>: for a target of 5
  and a queue of 2 items, \<open>2 < 5/2\<close> holds and the code interpolates to 64 instead of
  returning 100.
\<close>

theorem calculate_timeout_half_counterexample:
  "real 2 < real_of_int 5 / 2 \<and>
   calculate_timeout default_config 2 5 = Inr 64 \<and>
   calculate_timeout default_config 2 5 \<noteq> Inr (max_timeout_ms default_config)"
  by (simp add: calculate_timeout_def default_config_def Let_def)

text \<open>
  Claim C6, amended: with adaptive timeout enabled, \<open>_calculate_timeout\<close> returns
  \<open>min_timeout_ms\<close> when the queue length is at least \<open>2 * targetSize\<close>, \<open>max_timeout_ms\<close>
  when the queue length is below the floor of \<open>targetSize / 2\<close>, and otherwise
  \<open>min_timeout_ms + (max_timeout_ms - min_timeout_ms) * (1 - queueLength / targetSize)\<close>,
  without raising; for min 10, max 100 and target 16, a queue of 32 gives 10, a queue
  of 4 gives 100 and a queue of 16 gives 10.
\<close>

theorem calculate_timeout_cases:
  assumes "adaptive_timeout cfg"
  shows "calculate_timeout cfg q b =
           (if int q \<ge> 2 * b then Inr (min_timeout_ms cfg)
            else if int q < b div 2 then Inr (max_timeout_ms cfg)
            else Inr (min_timeout_ms cfg +
                      (max_timeout_ms cfg - min_timeout_ms cfg)
                        * (1 - real q / real_of_int b))) \<and>
         (min_timeout_ms cfg = 10 \<and> max_timeout_ms cfg = 100 \<longrightarrow>
            calculate_timeout cfg 32 16 = Inr 10 \<and>
            calculate_timeout cfg 4 16 = Inr 100 \<and>
            calculate_timeout cfg 16 16 = Inr 10)"
  using assms by (auto simp: calculate_timeout_def Let_def)

theorem calculate_timeout_cases_witness:
  "adaptive_timeout default_config \<and>
   min_timeout_ms default_config = 10 \<and> max_timeout_ms default_config = 100 \<and>
   calculate_timeout default_config 12 16 = Inr (65 / 2) \<and>
   calculate_timeout default_config 32 16 = Inr 10 \<and>
   calculate_timeout default_config 4 16 = Inr 100 \<and>
   calculate_timeout default_config 16 16 = Inr 10"
proof -
  have a: "adaptive_timeout default_config" by (simp add: default_config_def)
  have m: "min_timeout_ms default_config = 10 \<and> max_timeout_ms default_config = 100"
    by (simp add: default_config_def)
  from calculate_timeout_cases[OF a, of 12 16] a m show ?thesis by simp
qed

section \<open>Running metrics\<close>

lemma update_metrics_batches_processed:
  "batches_processed (snd (update_metrics cfg now x p m)) = batches_processed m + 1"
  by (simp add: update_metrics_def update_efficiency_def update_processing_time_def
                update_sizes_def Let_def)

lemma update_metrics_avg_batch_size:
  "batches_processed m + 1 \<noteq> 0 \<Longrightarrow>
   avg_batch_size (snd (update_metrics cfg now x p m)) =
     (avg_batch_size m * real_of_int (batches_processed m + 1 - 1) + real_of_int x)
       / real_of_int (batches_processed m + 1)"
  by (simp add: update_metrics_def update_efficiency_def update_processing_time_def
                update_sizes_def Let_def)

text \<open>
  Claim C7: \<open>_update_metrics\<close> increments \<open>batches_processed\<close> to \<open>n\<close> and sets
  \<open>avg_batch_size\<close> to \<open>(mean * (n - 1) + x) / n\<close>; from the initial metrics, batches of
  sizes 10, 20 and 30 leave \<open>avg_batch_size\<close> at 10, 15 and 20, whatever their
  processing times.
\<close>

theorem running_mean_batch_size:
  "(0 \<le> batches_processed m \<longrightarrow>
      batches_processed (snd (update_metrics cfg now x p m)) = batches_processed m + 1 \<and>
      avg_batch_size (snd (update_metrics cfg now x p m)) =
        (avg_batch_size m
           * real_of_int (batches_processed (snd (update_metrics cfg now x p m)) - 1)
         + real_of_int x)
        / real_of_int (batches_processed (snd (update_metrics cfg now x p m)))) \<and>
   avg_batch_size (metrics_after cfg [(10, p1, t1)] (initial_metrics t0)) = 10 \<and>
   avg_batch_size (metrics_after cfg [(10, p1, t1), (20, p2, t2)] (initial_metrics t0))
     = 15 \<and>
   avg_batch_size (metrics_after cfg [(10, p1, t1), (20, p2, t2), (30, p3, t3)]
                     (initial_metrics t0)) = 20"
  by (simp add: update_metrics_avg_batch_size update_metrics_batches_processed
                initial_metrics_def)

theorem running_mean_batch_size_witness:
  "0 \<le> batches_processed (initial_metrics 0) \<and>
   batches_processed (snd (update_metrics default_config 1 10 5 (initial_metrics 0))) = 1 \<and>
   avg_batch_size (snd (update_metrics default_config 1 10 5 (initial_metrics 0))) = 10"
  using running_mean_batch_size
          [of "initial_metrics 0" default_config 1 10 5 0 0 0 0 0 0 0]
  by (simp add: initial_metrics_def)

section \<open>Running metrics in double arithmetic\<close>

subsection \<open>Rounding\<close>

lemma round_half_even_of_int: "round_half_even (of_int k) = k"
  by (simp add: round_half_even_def)

lemma round_half_even_ge_floor: "\<lfloor>t\<rfloor> \<le> round_half_even t"
  by (simp add: round_half_even_def Let_def)

lemma round_half_even_ge: "of_int k \<le> t \<Longrightarrow> k \<le> round_half_even t"
proof -
  assume "of_int k \<le> t"
  then have "k \<le> \<lfloor>t\<rfloor>" by (simp add: le_floor_iff)
  then show ?thesis using round_half_even_ge_floor[of t] by linarith
qed

lemma round_half_even_pos:
  assumes "1 / 2 < t"
  shows "1 \<le> round_half_even t"
proof (cases "1 \<le> \<lfloor>t\<rfloor>")
  case True
  then show ?thesis using round_half_even_ge_floor[of t] by linarith
next
  case False
  have "0 \<le> \<lfloor>t\<rfloor>" using assms by (simp add: le_floor_iff)
  then have f: "\<lfloor>t\<rfloor> = 0" using False by linarith
  then show ?thesis using assms by (simp add: round_half_even_def Let_def)
qed

lemma floor_log2_bounds:
  assumes "0 < x"
  shows "2 powr of_int \<lfloor>log 2 x\<rfloor> \<le> x" and "x < 2 powr of_int (\<lfloor>log 2 x\<rfloor> + 1)"
  using floor_log_eq_powr_iff[of x 2 "\<lfloor>log 2 x\<rfloor>"] assms by simp_all

lemma ulp_exponent_ge: "- 1074 \<le> ulp_exponent x"
  by (simp add: ulp_exponent_def)

lemma ulp_exponent_mono:
  assumes "0 < d" and "d \<le> z"
  shows "ulp_exponent d \<le> ulp_exponent z"
proof -
  have "log 2 d \<le> log 2 z" using assms by simp
  then have "\<lfloor>log 2 d\<rfloor> \<le> \<lfloor>log 2 z\<rfloor>" by (rule floor_mono)
  then show ?thesis using assms by (simp add: ulp_exponent_def)
qed

lemma to_grid_pos_eq:
  "0 < x \<Longrightarrow>
   to_grid x = of_int (round_half_even (x / 2 powr of_int (ulp_exponent x)))
                 * 2 powr of_int (ulp_exponent x)"
  by (simp add: to_grid_def)

lemma to_grid_ge:
  assumes "0 < x" and "of_int k * 2 powr of_int (ulp_exponent x) \<le> x"
  shows "of_int k * 2 powr of_int (ulp_exponent x) \<le> to_grid x"
proof -
  let ?u = "(2::real) powr of_int (ulp_exponent x)"
  have u: "0 < ?u" by simp
  have "of_int k \<le> x / ?u" using assms(2) u by (simp add: pos_le_divide_eq)
  then have "k \<le> round_half_even (x / ?u)" by (rule round_half_even_ge)
  then have "(of_int k :: real) \<le> of_int (round_half_even (x / ?u))" by simp
  then have "of_int k * ?u \<le> of_int (round_half_even (x / ?u)) * ?u"
    using u by (simp only: mult_le_cancel_right_pos)
  then show ?thesis using assms(1) by (simp only: to_grid_pos_eq)
qed

lemma to_grid_nonneg:
  assumes "0 \<le> x"
  shows "0 \<le> to_grid x"
proof (cases "x = 0")
  case True
  then show ?thesis by (simp add: to_grid_def)
next
  case False
  then have x: "0 < x" using assms by simp
  have "of_int 0 * 2 powr of_int (ulp_exponent x) \<le> to_grid x"
    by (rule to_grid_ge[OF x]) (use x in simp)
  then show ?thesis by simp
qed

lemma normal_lower_bound:
  assumes "0 < x" and "- 1074 < ulp_exponent x"
  shows "2 ^ 52 * 2 powr of_int (ulp_exponent x) \<le> x"
proof -
  have e: "ulp_exponent x = \<lfloor>log 2 x\<rfloor> - 52"
    using assms by (simp add: ulp_exponent_def split: if_splits)
  have "2 powr of_int \<lfloor>log 2 x\<rfloor> \<le> x" using assms(1) by (rule floor_log2_bounds)
  moreover have "(2::real) powr of_int \<lfloor>log 2 x\<rfloor>
                   = 2 powr 52 * 2 powr of_int (ulp_exponent x)"
    unfolding e by (simp add: powr_diff)
  moreover have "(2::real) powr 52 = 2 ^ 52" by simp
  ultimately show ?thesis by simp
qed

lemma to_grid_pos:
  assumes "2 powr (- 1075) < x"
  shows "0 < to_grid x"
proof -
  let ?u = "(2::real) powr of_int (ulp_exponent x)"
  have x: "0 < x" using assms powr_gt_zero[of 2 "- 1075"] by linarith
  have u: "0 < ?u" by simp
  have half: "1 / 2 < x / ?u"
  proof (cases "ulp_exponent x = - 1074")
    case True
    have "(2::real) powr (- 1075) = 1 / 2 * 2 powr (- 1074)"
      using powr_add[of "2::real" "- 1" "- 1074"] by (simp add: powr_minus)
    then have "1 / 2 * ?u < x" using assms True by simp
    then show ?thesis using u by (simp only: pos_less_divide_eq)
  next
    case False
    then have "- 1074 < ulp_exponent x" using ulp_exponent_ge[of x] by linarith
    then have "2 ^ 52 * ?u \<le> x" using x by (simp only: normal_lower_bound)
    then have "2 ^ 52 \<le> x / ?u" using u by (simp only: pos_le_divide_eq)
    moreover have "(1::real) / 2 < 2 ^ 52" by simp
    ultimately show ?thesis by linarith
  qed
  then have "1 \<le> round_half_even (x / ?u)" by (rule round_half_even_pos)
  then have "(1::real) \<le> of_int (round_half_even (x / ?u))" by simp
  then have "0 < of_int (round_half_even (x / ?u)) * ?u" using u by simp
  then show ?thesis using x by (simp only: to_grid_pos_eq)
qed

lemma to_grid_ge_representable:
  assumes "0 < d" and "to_grid d = d" and "d \<le> z"
  shows "d \<le> to_grid z"
proof -
  let ?ud = "(2::real) powr of_int (ulp_exponent d)"
  let ?uz = "(2::real) powr of_int (ulp_exponent z)"
  have z: "0 < z" using assms by linarith
  have le: "ulp_exponent d \<le> ulp_exponent z" using assms(1,3) by (rule ulp_exponent_mono)
  show ?thesis
  proof (cases "ulp_exponent d = ulp_exponent z")
    case True
    obtain k where k: "d = of_int k * ?ud"
      using to_grid_pos_eq[OF assms(1)] assms(2) by metis
    then have "of_int k * ?uz \<le> z" using assms(3) True by simp
    then have "of_int k * ?uz \<le> to_grid z" by (rule to_grid_ge[OF z])
    then show ?thesis using k True by simp
  next
    case False
    then have lt: "ulp_exponent d < ulp_exponent z" using le by linarith
    then have nz: "- 1074 < ulp_exponent z" using ulp_exponent_ge[of d] by linarith
    have low: "2 ^ 52 * ?uz \<le> z" using z nz by (rule normal_lower_bound)
    have "of_int (2 ^ 52) * ?uz \<le> to_grid z"
      by (rule to_grid_ge[OF z]) (use low in simp)
    then have g: "2 ^ 52 * ?uz \<le> to_grid z" by simp
    have "\<lfloor>log 2 d\<rfloor> - 52 \<le> ulp_exponent d"
      using assms(1) by (simp add: ulp_exponent_def)
    then have "\<lfloor>log 2 d\<rfloor> + 1 \<le> ulp_exponent z + 52" using lt by linarith
    then have "(2::real) powr of_int (\<lfloor>log 2 d\<rfloor> + 1)
                 \<le> 2 powr of_int (ulp_exponent z + 52)"
      by simp
    moreover have "d < 2 powr of_int (\<lfloor>log 2 d\<rfloor> + 1)"
      using assms(1) by (rule floor_log2_bounds)
    moreover have "(2::real) powr of_int (ulp_exponent z + 52) = 2 ^ 52 * ?uz"
      by (simp add: powr_add)
    ultimately show ?thesis using g by linarith
  qed
qed

lemma pow2_split:
  assumes "e \<le> (i::int)"
  shows "(2::real) powr of_int i = 2 ^ nat (i - e) * 2 powr of_int e"
proof -
  have "(2::real) powr of_int i = 2 powr of_int (i - e) * 2 powr of_int e"
    by (simp add: powr_add [symmetric])
  also have "(2::real) powr of_int (i - e) = 2 ^ nat (i - e)"
    using assms by (simp add: powr_realpow [symmetric])
  finally show ?thesis .
qed

lemma scaled_div:
  assumes "e \<le> (i::int)"
  shows "of_int j * (2::real) powr of_int i / 2 powr of_int e = of_int (j * 2 ^ nat (i - e))"
  by (simp add: pow2_split[OF assms])

lemma scaled_mult:
  assumes "e \<le> (i::int)"
  shows "of_int (j * 2 ^ nat (i - e)) * (2::real) powr of_int e = of_int j * 2 powr of_int i"
  by (simp add: pow2_split[OF assms])

lemma to_grid_int_scaled:
  assumes "0 \<le> j" and "j < 2 ^ 53" and "- 1074 \<le> i"
  shows "to_grid (of_int j * 2 powr of_int i) = of_int j * 2 powr of_int i"
proof (cases "j = 0")
  case True
  then show ?thesis by (simp add: to_grid_def)
next
  case False
  let ?x = "of_int j * (2::real) powr of_int i"
  let ?e = "ulp_exponent ?x"
  have j: "0 < j" using assms(1) False by linarith
  then have x: "0 < ?x" by simp
  have "(of_int j :: real) < 2 ^ 53" using assms(2) by (metis of_int_less_numeral_power_cancel_iff)
  then have "?x < 2 ^ 53 * 2 powr of_int i" by simp
  also have "\<dots> = 2 powr of_int (i + 53)" by (simp add: powr_add)
  finally have up: "?x < 2 powr of_int (i + 53)" .
  have "2 powr of_int \<lfloor>log 2 ?x\<rfloor> \<le> ?x" using x by (rule floor_log2_bounds)
  then have "(2::real) powr of_int \<lfloor>log 2 ?x\<rfloor> < 2 powr of_int (i + 53)"
    using up by linarith
  then have "\<lfloor>log 2 ?x\<rfloor> < i + 53"
    by simp
  moreover have "\<bar>?x\<bar> = ?x" using x by linarith
  ultimately have e: "?e \<le> i" using assms(3) by (simp only: ulp_exponent_def)
  have q: "?x / 2 powr of_int ?e = of_int (j * 2 ^ nat (i - ?e))"
    using e by (rule scaled_div)
  have "to_grid ?x = of_int (round_half_even (?x / 2 powr of_int ?e)) * 2 powr of_int ?e"
    using x by (rule to_grid_pos_eq)
  also have "\<dots> = of_int (j * 2 ^ nat (i - ?e)) * 2 powr of_int ?e"
    by (simp only: q round_half_even_of_int)
  also have "\<dots> = ?x" using e by (rule scaled_mult)
  finally show ?thesis .
qed

lemma round_double_zero: "round_double 0 = Finite 0"
  by (simp add: round_double_def to_grid_def)

lemma round_double_nonneg:
  assumes "0 \<le> x"
  shows "double_nonneg (round_double x)"
  using to_grid_nonneg[OF assms] by (simp add: round_double_def Let_def)

lemma round_double_pos:
  assumes "2 powr (- 1075) < x"
  shows "double_gt_zero (round_double x)"
  using to_grid_pos[OF assms] by (simp add: round_double_def Let_def)

lemma round_double_ge:
  assumes "0 < d" and "round_double d = Finite d" and "d \<le> z"
  shows "double_ge (round_double z) d"
proof -
  have "to_grid d = d"
    using assms(2) by (simp add: round_double_def Let_def split: if_splits)
  then have "d \<le> to_grid z" using assms(1,3) by (simp only: to_grid_ge_representable)
  then show ?thesis using assms(1) by (simp add: round_double_def Let_def)
qed

lemma round_double_int_scaled:
  assumes "0 \<le> j" and "j < 2 ^ 53" and "- 1074 \<le> i"
  shows "round_double (of_int j * 2 powr of_int i) =
           (if of_int j * 2 powr of_int i \<ge> (2::real) ^ 1024 then PosInf
            else Finite (of_int j * 2 powr of_int i))"
proof -
  have "0 \<le> of_int j * (2::real) powr of_int i" using assms(1) by simp
  moreover have "- ((2::real) ^ 1024) < 0" by simp
  ultimately have "\<not> of_int j * (2::real) powr of_int i \<le> - (2 ^ 1024)" by linarith
  then show ?thesis
    by (simp only: round_double_def Let_def to_grid_int_scaled[OF assms] if_False)
qed

lemma round_double_of_int:
  assumes "0 \<le> j" and "j < 2 ^ 53"
  shows "round_double (of_int j) = Finite (of_int j)"
proof -
  have "(of_int j :: real) < 2 ^ 53"
    using assms(2) by (metis of_int_less_numeral_power_cancel_iff)
  moreover have "(2::real) ^ 53 < 2 ^ 1024" by simp
  ultimately have "\<not> (of_int j :: real) \<ge> 2 ^ 1024" by linarith
  then show ?thesis
    using round_double_int_scaled[OF assms, of 0] by simp
qed

lemma double_of_int_small:
  assumes "0 \<le> j" and "j < 2 ^ 53"
  shows "double_of_int j = Inr (Finite (of_int j))"
  by (simp add: double_of_int_def round_double_of_int[OF assms])

lemma double_of_int_nonneg:
  assumes "0 \<le> j" and "double_of_int j = Inr k"
  shows "\<exists>r. k = Finite r \<and> 0 \<le> r \<and> (0 < j \<longrightarrow> 0 < r) \<and> (j = 0 \<longrightarrow> r = 0)"
proof -
  have k: "k = Finite (to_grid (of_int j))"
    using assms(2)
    by (auto simp: double_of_int_def round_double_def Let_def split: if_splits double.splits)
  have a: "0 \<le> to_grid (of_int j)" using assms(1) by (simp add: to_grid_nonneg)
  have b: "0 < to_grid (of_int j)" if "0 < j"
  proof -
    have "(2::real) powr (- 1075) < 2 powr 0"
      by (subst powr_less_cancel_iff) simp_all
    then have "(2::real) powr (- 1075) < 1" by simp
    moreover have "(1::real) \<le> of_int j" using that by simp
    ultimately have "(2::real) powr (- 1075) < of_int j" by linarith
    then show ?thesis by (rule to_grid_pos)
  qed
  have c: "to_grid (of_int j) = 0" if "j = 0" using that by (simp add: to_grid_def)
  show ?thesis using k a b c by blast
qed

lemma double_gt_zero_nonzero: "double_gt_zero v \<Longrightarrow> v \<noteq> Finite 0"
  by (cases v) auto

lemma double_truediv_ok: "y \<noteq> Finite 0 \<Longrightarrow> \<exists>v. double_truediv x y = Inr v"
  by (cases y; cases x) auto

lemma double_mul_nonneg:
  assumes "double_nonneg a" and "0 \<le> r" and "r = 0 \<longrightarrow> a = Finite 0"
  shows "double_nonneg (double_mul a (Finite r))"
  using assms by (cases a) (auto simp: round_double_nonneg)

lemma double_add_nonneg:
  assumes "double_nonneg a" and "double_nonneg b"
  shows "double_nonneg (double_add a b)"
  using assms by (cases a; cases b) (simp_all add: round_double_nonneg)

lemma double_add_ge:
  assumes "double_nonneg a" and "0 < p" and "round_double p = Finite p"
  shows "double_ge (double_add a (Finite p)) p"
proof (cases a)
  case (Finite x)
  then have "p \<le> x + p" using assms(1) by simp
  then have "double_ge (round_double (x + p)) p"
    using assms(2,3) by (simp only: round_double_ge)
  then show ?thesis using Finite by simp
qed (use assms in simp_all)

lemma double_truediv_nonneg:
  assumes "double_nonneg a" and "0 < r"
  shows "\<exists>v. double_truediv a (Finite r) = Inr v \<and> double_nonneg v"
  using assms by (cases a) (auto simp: round_double_nonneg)

lemma double_truediv_pos:
  assumes "double_ge a p" and "0 < r" and "r * 2 powr (- 1075) < p"
  shows "\<exists>v. double_truediv a (Finite r) = Inr v \<and> double_gt_zero v"
proof (cases a)
  case (Finite x)
  then have "r * 2 powr (- 1075) < x" using assms(1,3) by simp
  then have "2 powr (- 1075) < x / r" using assms(2) by (simp only: pos_less_divide_eq mult.commute)
  then have "double_gt_zero (round_double (x / r))" by (rule round_double_pos)
  then show ?thesis using Finite assms(2) by simp
qed (use assms in simp_all)

lemma min_subnormal_pos: "0 < min_subnormal"
  by (simp add: min_subnormal_def)

lemma min_subnormal_representable: "round_double min_subnormal = Finite min_subnormal"
proof -
  have "(2::real) powr (- 1074) < 2 powr 0" by (subst powr_less_cancel_iff) simp_all
  then have "(2::real) powr (- 1074) < 1" by simp
  moreover have "(1::real) < 2 ^ 1024" by simp
  ultimately have "\<not> (2::real) powr (- 1074) \<ge> 2 ^ 1024" by linarith
  then show ?thesis
    using round_double_int_scaled[of 1 "- 1074"] by (simp add: min_subnormal_def)
qed

lemma round_half_even_half: "round_half_even (1 / 2) = 0"
  by (simp add: round_half_even_def Let_def)

lemma half_min_subnormal_rounds_to_zero: "round_double (min_subnormal / 2) = Finite 0"
proof -
  let ?x = "(2::real) powr (- 1075)"
  have x: "min_subnormal / 2 = ?x"
    using powr_add[of "2::real" "- 1" "- 1074"] by (simp add: min_subnormal_def powr_minus)
  have "log 2 ?x = - 1075" by (rule log_powr_cancel) simp_all
  moreover have "\<bar>?x\<bar> = ?x" by simp
  ultimately have e: "ulp_exponent ?x = - 1074" by (simp only: ulp_exponent_def) simp
  have "?x = 1 / 2 * 2 powr (- 1074)"
    using powr_add[of "2::real" "- 1" "- 1074"] by (simp add: powr_minus)
  then have q: "?x / 2 powr of_int (- 1074) = 1 / 2" by simp
  have "?x \<noteq> 0" by simp
  then have "to_grid ?x = 0"
    by (simp only: to_grid_def e q round_half_even_half if_False)
  then show ?thesis by (simp only: x round_double_def Let_def) simp
qed


subsection \<open>The running-mean processing time stays nonnegative\<close>

lemma running_mean_d_cases:
  "running_mean_d mean n x = Inl OverflowError \<or>
   (\<exists>k nd. double_of_int (n - 1) = Inr k \<and> double_of_int n = Inr nd \<and>
      running_mean_d mean n x = double_truediv (double_add (double_mul mean k) x) nd)"
  by (auto simp: running_mean_d_def double_of_int_def split: sum.splits double.splits)

lemma running_mean_d_nonneg:
  assumes "1 \<le> n" and "double_nonneg mean" and "n = 1 \<longrightarrow> mean = Finite 0"
      and "double_nonneg x" and "running_mean_d mean n x = Inr v"
  shows "double_nonneg v"
proof -
  from running_mean_d_cases[of mean n x] assms(5)
  obtain k nd where k: "double_of_int (n - 1) = Inr k" and nd: "double_of_int n = Inr nd"
    and v: "double_truediv (double_add (double_mul mean k) x) nd = Inr v"
    by auto
  obtain r where r: "k = Finite r" "0 \<le> r" "r = 0 \<longrightarrow> n - 1 = 0"
    using double_of_int_nonneg[OF _ k] assms(1) by (metis diff_ge_0_iff_ge less_le)
  obtain s where s: "nd = Finite s" "0 < s"
    using double_of_int_nonneg[OF _ nd] assms(1) by (metis less_le_trans zero_less_one zero_le_one order_trans)
  have "double_nonneg (double_mul mean (Finite r))"
    using assms(2,3) r by (intro double_mul_nonneg) auto
  then have "double_nonneg (double_add (double_mul mean k) x)"
    using assms(4) r(1) by (simp add: double_add_nonneg)
  then show ?thesis
    using double_truediv_nonneg[OF _ s(2)] v s(1) by fastforce
qed

lemma running_mean_d_pos:
  assumes "1 \<le> n" and "n < 2 ^ 53" and "double_nonneg mean"
      and "n = 1 \<longrightarrow> mean = Finite 0"
      and "round_double p = Finite p" and "of_int n * 2 powr (- 1075) < p"
  shows "\<exists>v. running_mean_d mean n (Finite p) = Inr v \<and> double_gt_zero v"
proof -
  have k: "double_of_int (n - 1) = Inr (Finite (of_int (n - 1)))"
    using assms(1,2) by (intro double_of_int_small) auto
  have nd: "double_of_int n = Inr (Finite (of_int n))"
    using assms(1,2) by (intro double_of_int_small) auto
  have n: "(0::real) < of_int n" using assms(1) by simp
  then have "(0::real) < of_int n * 2 powr (- 1075)" by simp
  then have p: "0 < p" using assms(6) by linarith
  have "double_nonneg (double_mul mean (Finite (of_int (n - 1))))"
    using assms(1,3,4) by (intro double_mul_nonneg) auto
  then have "double_ge (double_add (double_mul mean (Finite (of_int (n - 1)))) (Finite p)) p"
    using p assms(5) by (rule double_add_ge)
  from double_truediv_pos[OF this n assms(6)]
  show ?thesis by (simp add: running_mean_d_def k nd)
qed

lemma update_sizes_d_keeps:
  assumes "update_sizes_d b m = Inr m2"
  shows "batches_processed_d m2 = batches_processed_d m"
    and "avg_processing_time_ms_d m2 = avg_processing_time_ms_d m"
  using assms
  by (auto simp: update_sizes_d_def Let_def split: sum.splits if_splits)

lemma update_processing_time_d_count:
  "batches_processed_d (snd (update_processing_time_d b p m)) = batches_processed_d m"
  by (auto simp: update_processing_time_d_def Let_def split: sum.splits)

lemma update_processing_time_d_avg:
  "avg_processing_time_ms_d (snd (update_processing_time_d b p m)) =
     (case running_mean_d (avg_processing_time_ms_d m) (batches_processed_d m) p of
        Inl e \<Rightarrow> avg_processing_time_ms_d m
      | Inr v \<Rightarrow> v)"
  by (auto simp: update_processing_time_d_def Let_def split: sum.splits)

lemma update_efficiency_d_keeps:
  "batches_processed_d (snd (update_efficiency_d cfg now m)) = batches_processed_d m"
  "avg_processing_time_ms_d (snd (update_efficiency_d cfg now m)) = avg_processing_time_ms_d m"
  by (auto simp: update_efficiency_d_def Let_def split: sum.splits)

lemma update_metrics_d_count:
  "batches_processed_d (snd (update_metrics_d cfg now b p m)) = batches_processed_d m + 1"
proof (cases "update_sizes_d b (m\<lparr>batches_processed_d := batches_processed_d m + 1\<rparr>)")
  case (Inl e)
  then show ?thesis by (simp add: update_metrics_d_def Let_def)
next
  case (Inr m2)
  obtain e m3 where s: "update_processing_time_d b p m2 = (e, m3)" by (cases "update_processing_time_d b p m2")
  have m3: "batches_processed_d m3 = batches_processed_d m + 1"
    using update_processing_time_d_count[of b p m2] s update_sizes_d_keeps(1)[OF Inr] by simp
  show ?thesis
    using Inr s m3
    by (cases e) (simp_all add: update_metrics_d_def Let_def update_efficiency_d_keeps)
qed

lemma update_metrics_d_avg:
  "avg_processing_time_ms_d (snd (update_metrics_d cfg now b p m)) = avg_processing_time_ms_d m \<or>
   running_mean_d (avg_processing_time_ms_d m) (batches_processed_d m + 1) p =
     Inr (avg_processing_time_ms_d (snd (update_metrics_d cfg now b p m)))"
proof (cases "update_sizes_d b (m\<lparr>batches_processed_d := batches_processed_d m + 1\<rparr>)")
  case (Inl e)
  then show ?thesis by (simp add: update_metrics_d_def Let_def)
next
  case (Inr m2)
  obtain e m3 where s: "update_processing_time_d b p m2 = (e, m3)" by (cases "update_processing_time_d b p m2")
  have n2: "batches_processed_d m2 = batches_processed_d m + 1"
    and a2: "avg_processing_time_ms_d m2 = avg_processing_time_ms_d m"
    using update_sizes_d_keeps[OF Inr] by simp_all
  have "avg_processing_time_ms_d (snd (e, m3)) =
     (case running_mean_d (avg_processing_time_ms_d m2) (batches_processed_d m2) p of
        Inl e \<Rightarrow> avg_processing_time_ms_d m2
      | Inr v \<Rightarrow> v)"
    using update_processing_time_d_avg[of b p m2] by (simp only: s)
  then have m3: "avg_processing_time_ms_d m3 =
     (case running_mean_d (avg_processing_time_ms_d m) (batches_processed_d m + 1) p of
        Inl e \<Rightarrow> avg_processing_time_ms_d m
      | Inr v \<Rightarrow> v)"
    by (simp only: n2 a2 snd_conv)
  have eq: "avg_processing_time_ms_d (snd (update_metrics_d cfg now b p m))
              = avg_processing_time_ms_d m3"
    using Inr s
    by (cases e) (simp_all add: update_metrics_d_def Let_def update_efficiency_d_keeps)
  show ?thesis
  proof (cases "running_mean_d (avg_processing_time_ms_d m) (batches_processed_d m + 1) p")
    case (Inl x)
    then show ?thesis using m3 eq by simp
  next
    case (Inr v)
    then show ?thesis using m3 eq by simp
  qed
qed

lemma update_metrics_d_invariant:
  assumes "0 \<le> batches_processed_d m" and "double_nonneg (avg_processing_time_ms_d m)"
      and "batches_processed_d m = 0 \<longrightarrow> avg_processing_time_ms_d m = Finite 0"
      and "double_nonneg p"
  shows "0 \<le> batches_processed_d (snd (update_metrics_d cfg now b p m)) \<and>
         double_nonneg (avg_processing_time_ms_d (snd (update_metrics_d cfg now b p m))) \<and>
         batches_processed_d (snd (update_metrics_d cfg now b p m)) \<noteq> 0"
proof -
  let ?m' = "snd (update_metrics_d cfg now b p m)"
  have n: "batches_processed_d ?m' = batches_processed_d m + 1" by (rule update_metrics_d_count)
  have "double_nonneg (avg_processing_time_ms_d ?m')"
    using update_metrics_d_avg[of cfg now b p m]
  proof
    assume "avg_processing_time_ms_d ?m' = avg_processing_time_ms_d m"
    then show ?thesis using assms(2) by simp
  next
    assume "running_mean_d (avg_processing_time_ms_d m) (batches_processed_d m + 1) p =
              Inr (avg_processing_time_ms_d ?m')"
    then show ?thesis
      using assms
        running_mean_d_nonneg[of "batches_processed_d m + 1" "avg_processing_time_ms_d m" p
                                 "avg_processing_time_ms_d ?m'"]
      by simp
  qed
  then show ?thesis using n assms(1) by simp
qed

lemma metrics_after_d_invariant:
  assumes "0 \<le> batches_processed_d m" and "double_nonneg (avg_processing_time_ms_d m)"
      and "batches_processed_d m = 0 \<longrightarrow> avg_processing_time_ms_d m = Finite 0"
      and "\<forall>c \<in> set calls. double_nonneg (fst (snd c))"
  shows "batches_processed_d (metrics_after_d cfg calls m)
           = batches_processed_d m + int (length calls) \<and>
         double_nonneg (avg_processing_time_ms_d (metrics_after_d cfg calls m)) \<and>
         (batches_processed_d (metrics_after_d cfg calls m) = 0 \<longrightarrow>
            avg_processing_time_ms_d (metrics_after_d cfg calls m) = Finite 0)"
  using assms
proof (induction calls arbitrary: m)
  case Nil
  then show ?case by simp
next
  case (Cons c calls)
  obtain b p t where c: "c = (b, p, t)" by (cases c)
  let ?m = "snd (update_metrics_d cfg t b p m)"
  have p: "double_nonneg p" using Cons.prems(4) c by simp
  have inv: "0 \<le> batches_processed_d ?m \<and> double_nonneg (avg_processing_time_ms_d ?m) \<and>
             batches_processed_d ?m \<noteq> 0"
    using Cons.prems(1,2,3) p by (rule update_metrics_d_invariant)
  have rest: "\<forall>c \<in> set calls. double_nonneg (fst (snd c))" using Cons.prems(4) by simp
  have "batches_processed_d (metrics_after_d cfg calls ?m)
           = batches_processed_d ?m + int (length calls) \<and>
         double_nonneg (avg_processing_time_ms_d (metrics_after_d cfg calls ?m)) \<and>
         (batches_processed_d (metrics_after_d cfg calls ?m) = 0 \<longrightarrow>
            avg_processing_time_ms_d (metrics_after_d cfg calls ?m) = Finite 0)"
    using inv rest by (intro Cons.IH) blast+
  then show ?case by (simp add: c update_metrics_d_count)
qed

subsection \<open>The divisor of the theoretical throughput\<close>

lemma update_sizes_d_ok:
  assumes "1 \<le> batches_processed_d m" and "batches_processed_d m < 2 ^ 53"
      and "double_of_int b = Inr bd"
  shows "\<exists>m2. update_sizes_d b m = Inr m2"
proof -
  let ?n = "batches_processed_d m"
  have k: "double_of_int (?n - 1) = Inr (Finite (of_int (?n - 1)))"
    using assms(1,2) by (intro double_of_int_small) auto
  have nd: "double_of_int ?n = Inr (Finite (of_int ?n))"
    using assms(1,2) by (intro double_of_int_small) auto
  have "Finite (real_of_int ?n) \<noteq> Finite 0" using assms(1) by simp
  then obtain v where
    "double_truediv (double_add (double_mul (avg_batch_size_d m) (Finite (of_int (?n - 1)))) bd)
       (Finite (of_int ?n)) = Inr v"
    using double_truediv_ok by blast
  then show ?thesis by (simp add: update_sizes_d_def Let_def k nd assms(3))
qed

lemma update_processing_time_d_ok:
  assumes "running_mean_d (avg_processing_time_ms_d m) (batches_processed_d m) (Finite p) = Inr v"
      and "0 < p" and "double_of_int b = Inr bd"
  shows "\<exists>m3. update_processing_time_d b (Finite p) m = (None, m3) \<and>
              avg_processing_time_ms_d m3 = v"
proof -
  have "Finite p \<noteq> Finite 0" using assms(2) by simp
  then obtain q where "double_truediv bd (Finite p) = Inr q"
    using double_truediv_ok by blast
  then show ?thesis
    using assms by (simp add: update_processing_time_d_def Let_def)
qed

lemma update_efficiency_d_ok:
  assumes "double_gt_zero (avg_processing_time_ms_d m)" and "double_of_int (max_batch_size cfg) = Inr mbd"
  shows "fst (update_efficiency_d cfg now m) = None"
proof -
  obtain th where th: "double_truediv mbd (avg_processing_time_ms_d m) = Inr th"
    using double_truediv_ok double_gt_zero_nonzero[OF assms(1)] by blast
  show ?thesis
  proof (cases "double_gt_zero th")
    case True
    then obtain eff where "double_truediv (throughput_req_per_sec_d m) th = Inr eff"
      using double_truediv_ok double_gt_zero_nonzero by blast
    then show ?thesis using True th assms(2) by (simp add: update_efficiency_d_def)
  next
    case False
    then show ?thesis using th assms(2) by (simp add: update_efficiency_d_def)
  qed
qed

lemma update_metrics_d_completes:
  assumes "0 \<le> batches_processed_d m" and "batches_processed_d m + 1 < 2 ^ 53"
      and "double_nonneg (avg_processing_time_ms_d m)"
      and "batches_processed_d m = 0 \<longrightarrow> avg_processing_time_ms_d m = Finite 0"
      and "round_double p = Finite p"
      and "of_int (batches_processed_d m + 1) * 2 powr (- 1075) < p"
      and "double_of_int b = Inr bd" and "double_of_int (max_batch_size cfg) = Inr mbd"
  shows "double_gt_zero
           (avg_processing_time_ms_d (snd (update_metrics_d cfg now b (Finite p) m))) \<and>
         fst (update_metrics_d cfg now b (Finite p) m) = None"
proof -
  let ?m1 = "m\<lparr>batches_processed_d := batches_processed_d m + 1\<rparr>"
  have "(0::real) < of_int (batches_processed_d m + 1) * 2 powr (- 1075)"
    using assms(1) by simp
  then have p: "0 < p" using assms(6) by linarith
  obtain m2 where m2: "update_sizes_d b ?m1 = Inr m2"
    using update_sizes_d_ok[of ?m1 b bd] assms(1,2,7) by auto
  have n2: "batches_processed_d m2 = batches_processed_d m + 1"
    and a2: "avg_processing_time_ms_d m2 = avg_processing_time_ms_d m"
    using update_sizes_d_keeps[OF m2] by simp_all
  obtain v where v: "running_mean_d (avg_processing_time_ms_d m) (batches_processed_d m + 1)
                       (Finite p) = Inr v" and pos: "double_gt_zero v"
    using running_mean_d_pos[of "batches_processed_d m + 1" "avg_processing_time_ms_d m" p]
          assms(1,2,3,4,5,6) by auto
  obtain m3 where m3: "update_processing_time_d b (Finite p) m2 = (None, m3)"
      and a3: "avg_processing_time_ms_d m3 = v"
    using update_processing_time_d_ok[of m2 p v b bd] v p assms(7) n2 a2 by auto
  have eq: "update_metrics_d cfg now b (Finite p) m = update_efficiency_d cfg now m3"
    using m2 m3 by (simp add: update_metrics_d_def Let_def)
  have "fst (update_efficiency_d cfg now m3) = None"
    using pos a3 assms(8) by (intro update_efficiency_d_ok) auto
  moreover have "avg_processing_time_ms_d (snd (update_efficiency_d cfg now m3)) = v"
    using a3 by (simp add: update_efficiency_d_keeps)
  ultimately show ?thesis using pos eq by simp
qed

lemma update_metrics_d_zero_time:
  assumes "double_of_int b = Inr bd" and "double_of_int (max_batch_size cfg) = Inr mbd"
  shows "fst (update_metrics_d cfg now b (Finite 0) (initial_metrics_d t0))
           = Some ZeroDivisionError"
proof -
  let ?m1 = "(initial_metrics_d t0)\<lparr>batches_processed_d := batches_processed_d (initial_metrics_d t0) + 1\<rparr>"
  have c0: "double_of_int 0 = Inr (Finite 0)" using double_of_int_small[of 0] by simp
  have c1: "double_of_int 1 = Inr (Finite 1)" using double_of_int_small[of 1] by simp
  have n1: "batches_processed_d ?m1 = 1" by (simp add: initial_metrics_d_def)
  obtain m2 where m2: "update_sizes_d b ?m1 = Inr m2"
    using update_sizes_d_ok[of ?m1 b bd] assms(1) n1 by auto
  have n2: "batches_processed_d m2 = 1"
    and a2: "avg_processing_time_ms_d m2 = Finite 0"
    using update_sizes_d_keeps[OF m2] by (simp_all add: initial_metrics_d_def)
  have rm: "running_mean_d (Finite 0) 1 (Finite 0) = Inr (Finite 0)"
    by (simp add: running_mean_d_def c0 c1 round_double_zero)
  have m3: "update_processing_time_d b (Finite 0) m2
              = (None, m2\<lparr>avg_processing_time_ms_d := Finite 0\<rparr>)"
    by (simp add: update_processing_time_d_def n2 a2 rm)
  have "fst (update_efficiency_d cfg now (m2\<lparr>avg_processing_time_ms_d := Finite 0\<rparr>))
          = Some ZeroDivisionError"
    by (simp add: update_efficiency_d_def assms(2))
  then show ?thesis using m2 m3 by (simp add: update_metrics_d_def Let_def)
qed


text \<open>
  Claim C10, as stated: a strictly positive measured processing time, after nonnegative
  recorded times, makes the updated running-mean processing time strictly positive, so
  the division for the theoretical throughput cannot raise. In double arithmetic the
  mean can underflow: after one call with time \<open>0.0\<close>, a second call with the positive
  time \<open>5e-324\<close> computes \<open>(0.0 * 1 + 5e-324) / 2\<close>, which rounds to \<open>0.0\<close>, and the division
  \<open>max_batch_size / 0.0\<close> raises \<open>ZeroDivisionError\<close>.
\<close>

theorem update_metrics_d_underflow_counterexample:
  "double_nonneg (Finite 0) \<and> 0 < min_subnormal \<and>
   round_double min_subnormal = Finite min_subnormal \<and>
   avg_processing_time_ms_d
     (snd (update_metrics_d default_config (Finite 2) 8 (Finite min_subnormal)
             (metrics_after_d default_config [(8, Finite 0, Finite 1)]
                (initial_metrics_d (Finite 0))))) = Finite 0 \<and>
   fst (update_metrics_d default_config (Finite 2) 8 (Finite min_subnormal)
          (metrics_after_d default_config [(8, Finite 0, Finite 1)]
             (initial_metrics_d (Finite 0)))) = Some ZeroDivisionError"
proof -
  have c0: "double_of_int 0 = Inr (Finite 0)" using double_of_int_small[of 0] by simp
  have c1: "double_of_int 1 = Inr (Finite 1)" using double_of_int_small[of 1] by simp
  have c2: "double_of_int 2 = Inr (Finite 2)" using double_of_int_small[of 2] by simp
  have c8: "double_of_int 8 = Inr (Finite 8)" using double_of_int_small[of 8] by simp
  have c64: "double_of_int 64 = Inr (Finite 64)" using double_of_int_small[of 64] by simp
  have r8: "round_double 8 = Finite 8" using round_double_of_int[of 8] by simp
  have r16: "round_double 16 = Finite 16" using round_double_of_int[of 16] by simp
  have nz: "min_subnormal \<noteq> 0" "0 < min_subnormal" using min_subnormal_pos by simp_all
  let ?m1 = "\<lparr> total_requests_d = 0, batches_processed_d = 1, avg_batch_size_d = Finite 8,
       peak_batch_size_d = 8, critical_requests_d = 0, high_priority_requests_d = 0,
       normal_requests_d = 0, low_priority_requests_d = 0, avg_wait_time_ms_d = Finite 0,
       avg_processing_time_ms_d = Finite 0, throughput_req_per_sec_d = Finite 0,
       avg_gpu_utilization_d = Finite 0, gpu_samples_d = [],
       batch_efficiency_d = Finite 0,
       coalescing_rate_d = Finite 0, last_updated_d = Finite 0 \<rparr>"
  have first: "update_metrics_d default_config (Finite 1) 8 (Finite 0)
                 (initial_metrics_d (Finite 0)) = (Some ZeroDivisionError, ?m1)"
    by (simp add: update_metrics_d_def update_sizes_d_def update_processing_time_d_def
                  update_efficiency_d_def running_mean_d_def initial_metrics_d_def
                  default_config_def Let_def c0 c1 c8 c64 r8 round_double_zero)
  have second: "update_metrics_d default_config (Finite 2) 8 (Finite min_subnormal) ?m1
                  = (Some ZeroDivisionError,
                     ?m1\<lparr>batches_processed_d := 2,
                           avg_processing_time_ms_d := Finite 0,
                           throughput_req_per_sec_d :=
                             double_mul (round_double (8 / min_subnormal)) (Finite 1000)\<rparr>)"
    by (simp add: update_metrics_d_def update_sizes_d_def update_processing_time_d_def
                  update_efficiency_d_def running_mean_d_def
                  default_config_def Let_def c1 c2 c8 c64 r8 r16 round_double_zero nz
                  min_subnormal_representable half_min_subnormal_rounds_to_zero)
  show ?thesis
    by (simp add: first second min_subnormal_pos min_subnormal_representable)
qed

text \<open>
  Claim C10, amended: let \<open>_update_metrics\<close> be called for the \<open>n\<close>-th time, \<open>n < 2^53\<close>, after
  calls whose processing times were all nonnegative, with a measured processing time
  \<open>p\<close> that is a double above \<open>n * 2^-1075\<close> (on the first call: any strictly positive
  double), and with \<open>batch_size\<close> and \<open>max_batch_size\<close> integers that convert to a float.
  Then the updated running-mean processing time is strictly positive and
  \<open>_update_metrics\<close> completes without raising. The code has no guard for a measured time
  of zero: the first call with time \<open>0.0\<close> raises \<open>ZeroDivisionError\<close>.
\<close>

theorem update_metrics_d_no_zero_division:
  assumes "\<forall>c \<in> set calls. double_nonneg (fst (snd c))"
      and "int (length calls) + 1 < 2 ^ 53"
      and "round_double p = Finite p"
      and "of_int (int (length calls) + 1) * 2 powr (- 1075) < p"
      and "double_of_int b = Inr bd" and "double_of_int (max_batch_size cfg) = Inr mbd"
  shows "double_gt_zero
           (avg_processing_time_ms_d
              (snd (update_metrics_d cfg now b (Finite p)
                      (metrics_after_d cfg calls (initial_metrics_d t0))))) \<and>
         fst (update_metrics_d cfg now b (Finite p)
                (metrics_after_d cfg calls (initial_metrics_d t0))) = None \<and>
         fst (update_metrics_d cfg now b (Finite 0) (initial_metrics_d t0))
           = Some ZeroDivisionError"
proof -
  let ?m = "metrics_after_d cfg calls (initial_metrics_d t0)"
  have inv: "batches_processed_d ?m
               = batches_processed_d (initial_metrics_d t0) + int (length calls) \<and>
             double_nonneg (avg_processing_time_ms_d ?m) \<and>
             (batches_processed_d ?m = 0 \<longrightarrow> avg_processing_time_ms_d ?m = Finite 0)"
    by (rule metrics_after_d_invariant) (simp_all add: initial_metrics_d_def assms(1))
  then have n: "batches_processed_d ?m = int (length calls)"
    by (simp add: initial_metrics_d_def)
  have "double_gt_zero
           (avg_processing_time_ms_d (snd (update_metrics_d cfg now b (Finite p) ?m))) \<and>
         fst (update_metrics_d cfg now b (Finite p) ?m) = None"
    using inv assms(2,3,4,5,6) unfolding n
    by (intro update_metrics_d_completes[of ?m p b bd cfg mbd]) (simp_all add: n)
  moreover have "fst (update_metrics_d cfg now b (Finite 0) (initial_metrics_d t0))
                   = Some ZeroDivisionError"
    using assms(5,6) by (rule update_metrics_d_zero_time)
  ultimately show ?thesis by simp
qed

theorem update_metrics_d_no_zero_division_witness:
  "double_nonneg (Finite 2) \<and> double_nonneg (Finite 0) \<and>
   round_double 3 = Finite 3 \<and> 3 * 2 powr (- 1075) < (3::real) \<and>
   double_of_int 16 = Inr (Finite 16) \<and>
   double_of_int (max_batch_size default_config) = Inr (Finite 64) \<and>
   double_gt_zero
     (avg_processing_time_ms_d
        (snd (update_metrics_d default_config (Finite 9) 16 (Finite 3)
                (metrics_after_d default_config
                   [(4, Finite 2, Finite 1), (8, Finite 0, Finite 2)]
                   (initial_metrics_d (Finite 0)))))) \<and>
   fst (update_metrics_d default_config (Finite 9) 16 (Finite 3)
          (metrics_after_d default_config
             [(4, Finite 2, Finite 1), (8, Finite 0, Finite 2)]
             (initial_metrics_d (Finite 0)))) = None"
proof -
  have h1: "\<forall>c \<in> set [(4::int, Finite 2, Finite 1), (8, Finite 0, Finite 2)].
              double_nonneg (fst (snd c))"
    by simp
  have h2: "int (length [(4::int, Finite 2, Finite 1), (8, Finite 0, Finite 2)]) + 1 < 2 ^ 53"
    by simp
  have h3: "round_double 3 = Finite 3" using round_double_of_int[of 3] by simp
  have "(2::real) powr (- 1075) < 2 powr 0" by (subst powr_less_cancel_iff) simp_all
  then have small: "(2::real) powr (- 1075) < 1" by simp
  then have t: "3 * 2 powr (- 1075) < (3::real)" by simp
  have h4: "of_int (int (length [(4::int, Finite 2, Finite 1), (8, Finite 0, Finite 2)]) + 1)
              * 2 powr (- 1075) < (3::real)"
    using small by simp
  have h5: "double_of_int 16 = Inr (Finite 16)" using double_of_int_small[of 16] by simp
  have h6: "double_of_int (max_batch_size default_config) = Inr (Finite 64)"
    using double_of_int_small[of 64] by (simp add: default_config_def)
  from update_metrics_d_no_zero_division[OF h1 h2 h3 h4 h5 h6, of "Finite 9" "Finite 0"]
  show ?thesis using h3 t h5 h6 by simp
qed

section \<open>Dispatch and result handles\<close>

lemma complete_with_result_eq:
  "complete_with_result req r s =
     Inr (if future_done (futures s (future req)) then s
          else s\<lparr>futures := (futures s)(future req := FutResult r)\<rparr>)"
  by (simp add: complete_with_result_def set_result_def)

lemma complete_with_exception_eq:
  "complete_with_exception req e s =
     Inr (if future_done (futures s (future req)) then s
          else s\<lparr>futures := (futures s)(future req := FutException e)\<rparr>)"
  by (simp add: complete_with_exception_def set_exception_def)

lemma futures_share_with_coalesced [simp]:
  "futures (share_with_coalesced req s) = futures s"
  by (simp add: share_with_coalesced_def split: option.splits)

lemma futures_record_wait_time [simp]:
  "futures (record_wait_time now req s) = futures s"
  by (simp add: record_wait_time_def split: option.splits)

lemma distribute_results_no_raise:
  "fst (distribute_results clock i prs s) = None"
  by (induction prs arbitrary: i s) (auto simp: complete_with_result_eq)

lemma distribute_results_done_unchanged:
  "future_done (futures s a) \<Longrightarrow>
   futures (snd (distribute_results clock i prs s)) a = futures s a"
proof (induction prs arbitrary: i s)
  case Nil
  then show ?case by simp
next
  case (Cons pr prs)
  obtain req r where pr: "pr = (req, r)" by (cases pr)
  let ?s1 = "if future_done (futures s (future req)) then s
             else s\<lparr>futures := (futures s)(future req := FutResult r)\<rparr>"
  let ?s2 = "record_wait_time (clock i) req (share_with_coalesced req ?s1)"
  have eq: "futures ?s2 a = futures s a" using Cons.prems by auto
  then have "future_done (futures ?s2 a)" using Cons.prems by simp
  from Cons.IH[OF this] eq show ?case
    by (simp add: pr complete_with_result_eq)
qed


lemma fail_batch_no_raise: "fst (fail_batch e batch s) = None"
  by (induction batch arbitrary: s) (auto simp: complete_with_exception_eq)

lemma fail_batch_done_unchanged:
  "future_done (futures s a) \<Longrightarrow> futures (snd (fail_batch e batch s)) a = futures s a"
proof (induction batch arbitrary: s)
  case Nil
  then show ?case by simp
next
  case (Cons req batch)
  let ?s1 = "if future_done (futures s (future req)) then s
             else s\<lparr>futures := (futures s)(future req := FutException e)\<rparr>"
  have eq: "futures ?s1 a = futures s a" using Cons.prems by auto
  then have "future_done (futures ?s1 a)" using Cons.prems by simp
  from Cons.IH[OF this] eq show ?case
    by (simp add: complete_with_exception_eq)
qed



lemma dispatch_no_raise: "fst (dispatch processor dh clock batch s) = None"
proof (cases "run_processor processor dh batch")
  case (Inl e)
  then show ?thesis by (simp add: dispatch_def fail_batch_no_raise)
next
  case (Inr results)
  obtain r s1 where d: "distribute_results clock 1 (zip batch results) s = (r, s1)"
    by (cases "distribute_results clock 1 (zip batch results) s")
  have "r = None"
    using distribute_results_no_raise[of clock 1 "zip batch results" s] d by simp
  then show ?thesis using Inr d by (simp add: dispatch_def)
qed

lemma futures_process_batch:
  "futures (snd (process_batch cfg processor dh clock batch s)) a =
     (if batch = [] then futures s a
      else futures (snd (dispatch processor dh clock batch s)) a)"
  by (auto simp: process_batch_def Let_def split: prod.splits option.splits)

lemma dispatch_done_unchanged:
  assumes "future_done (futures s a)"
  shows "futures (snd (dispatch processor dh clock batch s)) a = futures s a"
proof (cases "run_processor processor dh batch")
  case (Inl e)
  then show ?thesis using assms
    by (simp add: dispatch_def fail_batch_done_unchanged)
next
  case (Inr results)
  obtain r s1 where d: "distribute_results clock 1 (zip batch results) s = (r, s1)"
    by (cases "distribute_results clock 1 (zip batch results) s")
  have r: "r = None" using distribute_results_no_raise[of clock 1 "zip batch results" s] d by simp
  have "futures s1 a = futures s a"
    using distribute_results_done_unchanged[OF assms, of clock 1 "zip batch results"] d by simp
  then show ?thesis using Inr d r by (simp add: dispatch_def)
qed






text \<open>
  Claim C8: for a handle that is already completed when the dispatcher distributes the
  results or the batch-level failure, the completion attempt is a no-op: neither loop
  raises (the guard keeps \<open>set_result\<close> and \<open>set_exception\<close> from raising
  \<open>InvalidStateError\<close>), the \<open>try\<close> block with its handler raises nothing, and the
  value of the handle after \<open>_process_batch\<close> is the value before.
\<close>

theorem completed_handle_is_left_alone:
  assumes "future_done (futures s a)"
  shows "fst (distribute_results clock i (zip batch results) s) = None \<and>
         futures (snd (distribute_results clock i (zip batch results) s)) a = futures s a \<and>
         fst (fail_batch e batch s) = None \<and>
         futures (snd (fail_batch e batch s)) a = futures s a \<and>
         fst (dispatch processor dh clock batch s) = None \<and>
         futures (snd (process_batch cfg processor dh clock batch s)) a = futures s a"
  using assms
  by (simp add: distribute_results_no_raise distribute_results_done_unchanged
        fail_batch_no_raise fail_batch_done_unchanged dispatch_no_raise
        futures_process_batch dispatch_done_unchanged)

theorem completed_handle_is_left_alone_witness:
  "future_done (futures timed_out_optimizer (future req_a)) \<and>
   fst (dispatch None (\<lambda>d. d) example_clock [req_a, req_c] timed_out_optimizer) = None \<and>
   futures (snd (process_batch default_config None (\<lambda>d. d) example_clock [req_a, req_c]
                   timed_out_optimizer)) (future req_a) = FutCancelled \<and>
   futures (snd (process_batch default_config (Some failing_processor) (\<lambda>d. d)
                   example_clock [req_a, req_c] timed_out_optimizer)) (future req_a)
     = FutCancelled"
proof -
  have d: "future_done (futures timed_out_optimizer (future req_a))"
    by (simp add: timed_out_optimizer_def req_a_def)
  have v: "futures timed_out_optimizer (future req_a) = FutCancelled"
    by (simp add: timed_out_optimizer_def req_a_def)
  from completed_handle_is_left_alone
         [OF d, of example_clock 1 "[req_a, req_c]" "[]" "OtherError ''boom''" None
            "\<lambda>d. d" default_config]
       completed_handle_is_left_alone
         [OF d, of example_clock 1 "[req_a, req_c]" "[]" "OtherError ''boom''"
            "Some failing_processor" "\<lambda>d. d" default_config]
       d v
  show ?thesis by simp
qed

section \<open>Coalescing\<close>




























section \<open>The heap invariant of the admission queue\<close>




lemma req_le_total: "req_le a b \<or> req_le b a"
  by (auto simp: req_le_def req_lt_def)

lemma length_siftdown_loop [simp]:
  "length (siftdown_loop heap startpos pos newitem) = length heap"
  by (induction heap startpos pos newitem rule: siftdown_loop.induct)
     (subst siftdown_loop.simps, simp add: Let_def)















section \<open>Collection order\<close>

lemma heap_inv_Nil: "heap_inv []"
  by (simp add: heap_inv_def)






















text \<open>
  Claim C9 fails on the code: in a round that finds the queue empty, the collector
  takes the lock, sleeps with the lock held and releases it only after the sleep. The
  run below starts from the empty queue; a request arrives after the first iteration.
\<close>

theorem collector_sleeps_holding_queue_lock:
  "map_option (\<lambda>r. snd (snd r))
     (collect_batch default_config (\<lambda>d. d) 16 0 late_arrival_schedule idle_optimizer)
     = Some [Acquire, Sleep, Release, Acquire, Release, Acquire, Release] \<and>
   suspended_holding_lock False
     [Acquire, Sleep, Release, Acquire, Release, Acquire, Release]"
  by (simp add: collect_batch_def calculate_timeout_def late_arrival_schedule_def
        idle_optimizer_def enqueue_def heappush_def siftdown_def siftdown_loop.simps
        heappop_def Let_def default_config_def)

end
